theory Spec2Isabelle
  imports Complex_Main "HOL-Library.Sublist"
begin

section \<open>Argument vectors\<close>

text \<open>
  The raw argument vector is an array of strings; index 0 and 1 hold the launcher and the
  program name. A string is a list of characters, the array a list of strings.

  The helpers of \<^verbatim>\<open>src/cli/argv.ts\<close> are not part of the excerpt: only their test file
  \<^verbatim>\<open>src/cli/argv.test.ts\<close> and their callers are. Each helper below is therefore written
  from the words of the specification, and \<open>argv_test_ts\<close> further down replays every
  assertion of the test file on them.
\<close>

type_synonym argv = "string list"

definition FLAG_TERMINATOR :: string where
  "FLAG_TERMINATOR = ''--''"

text \<open>\<^verbatim>\<open>s.startsWith(p)\<close> of the language.\<close>

definition startsWith :: "string \<Rightarrow> string \<Rightarrow> bool" where
  "startsWith s p = (take (length p) s = p)"

text \<open>A token looks like a flag when it starts with \<^verbatim>\<open>-\<close>.\<close>

definition isFlagShaped :: "string \<Rightarrow> bool" where
  "isFlagShaped s = startsWith s ''-''"

text \<open>
  The three results of a flag lookup: \<^verbatim>\<open>undefined\<close> (flag absent), \<^verbatim>\<open>null\<close> (flag present,
  no usable value) and a string.
\<close>

datatype flag_value = Undefined | Null | Str string

text \<open>
  Modelled from the spec: \<^verbatim>\<open>hasHelpOrVersion\<close> of argv.ts, missing from the excerpt.
  True if any token, scanning from index 2 onward, equals \<^verbatim>\<open>--help\<close>, \<^verbatim>\<open>-h\<close>,
  \<^verbatim>\<open>--version\<close> or \<^verbatim>\<open>-V\<close>, before any terminator.
\<close>

definition isHelpOrVersionToken :: "string \<Rightarrow> bool" where
  "isHelpOrVersionToken arg =
     (arg = ''--help'' \<or> arg = ''-h'' \<or> arg = ''--version'' \<or> arg = ''-V'')"

fun scanHelpOrVersion :: "string list \<Rightarrow> bool" where
  "scanHelpOrVersion [] = False"
| "scanHelpOrVersion (arg # rest) =
     (if arg = FLAG_TERMINATOR then False
      else if isHelpOrVersionToken arg then True
      else scanHelpOrVersion rest)"

definition hasHelpOrVersion :: "argv \<Rightarrow> bool" where
  "hasHelpOrVersion argv = scanHelpOrVersion (drop 2 argv)"

text \<open>
  Modelled from the spec: \<^verbatim>\<open>getCommandPath\<close> of argv.ts, missing from the excerpt.
  The tokens starting at \<open>offset\<close> that do not begin with \<^verbatim>\<open>-\<close> and are not the
  terminator, stopping at the first token that is a flag or the terminator.
\<close>

fun scanCommandPath :: "string list \<Rightarrow> string list" where
  "scanCommandPath [] = []"
| "scanCommandPath (arg # rest) =
     (if arg = FLAG_TERMINATOR \<or> isFlagShaped arg then []
      else arg # scanCommandPath rest)"

definition getCommandPath :: "argv \<Rightarrow> nat \<Rightarrow> string list" where
  "getCommandPath argv offset = scanCommandPath (drop offset argv)"

text \<open>
  Modelled from the spec: \<^verbatim>\<open>getPrimaryCommand\<close> of argv.ts, missing from the excerpt.
  The first element of \<^verbatim>\<open>getCommandPath(argv, 2)\<close>, or \<^verbatim>\<open>null\<close> (here \<open>None\<close>) if the
  path is empty.
\<close>

definition getPrimaryCommand :: "argv \<Rightarrow> string option" where
  "getPrimaryCommand argv =
     (case getCommandPath argv 2 of [] \<Rightarrow> None | primary # _ \<Rightarrow> Some primary)"

text \<open>
  Modelled from the spec: \<^verbatim>\<open>hasFlag\<close> of argv.ts, missing from the excerpt.
  True iff \<open>name\<close> appears as an exact token before any terminator.
\<close>

fun hasFlag :: "argv \<Rightarrow> string \<Rightarrow> bool" where
  "hasFlag [] name = False"
| "hasFlag (arg # rest) name =
     (if arg = FLAG_TERMINATOR then False
      else if arg = name then True
      else hasFlag rest name)"

text \<open>
  Modelled from the spec: \<^verbatim>\<open>getFlagValue\<close> of argv.ts, missing from the excerpt.
  The scan runs left to right and stops at the first terminator. A token
  \<^verbatim>\<open>name=value\<close> gives \<open>value\<close>, which may be empty. A bare \<open>name\<close> gives the next token,
  unless that token is flag-shaped or does not exist: then the result is \<^verbatim>\<open>null\<close>. A name
  that is not found before the terminator gives \<^verbatim>\<open>undefined\<close>.
\<close>

fun getFlagValue :: "argv \<Rightarrow> string \<Rightarrow> flag_value" where
  "getFlagValue [] name = Undefined"
| "getFlagValue (arg # rest) name =
     (if arg = FLAG_TERMINATOR then Undefined
      else if arg = name then
        (case rest of
           [] \<Rightarrow> Null
         | next # _ \<Rightarrow> if isFlagShaped next then Null else Str next)
      else if startsWith arg (name @ ''='') then Str (drop (length name + 1) arg)
      else getFlagValue rest name)"

text \<open>
  A token decides the lookup of \<open>name\<close> when it is the bare name or has the form
  \<^verbatim>\<open>name=...\<close>.
\<close>

definition namesFlag :: "string \<Rightarrow> string \<Rightarrow> bool" where
  "namesFlag name arg = (arg = name \<or> startsWith arg (name @ ''=''))"

text \<open>
  Modelled from the spec: \<^verbatim>\<open>buildParseArgv\<close> of argv.ts, missing from the excerpt.
  It rebuilds the argument vector \<^verbatim>\<open>[runtimeName, programName, ...rest]\<close> from one of two
  sources: the raw launcher arguments, or a fallback token array. Raw arguments of a
  direct-binary launch get the synthetic runtime element in front, raw arguments of a
  script-runner launch are passed through unchanged, and fallback tokens are wrapped with the
  synthetic runtime and the program name. The specification does not say how a
  direct-binary launch is told from a script-runner launch, nor name the synthetic runtime;
  both are read off \<^verbatim>\<open>argv.test.ts\<close>: a launch is a direct binary when the raw arguments
  start with the program name, and the synthetic runtime is \<^verbatim>\<open>node\<close>.
\<close>

datatype argv_source = RawArgs "string list" | FallbackArgv "string list"

definition SYNTHETIC_RUNTIME :: string where
  "SYNTHETIC_RUNTIME = ''node''"

definition isDirectBinary :: "string \<Rightarrow> string list \<Rightarrow> bool" where
  "isDirectBinary programName raw =
     (case raw of [] \<Rightarrow> False | launcher # _ \<Rightarrow> launcher = programName)"

fun buildParseArgv :: "string \<Rightarrow> argv_source \<Rightarrow> argv" where
  "buildParseArgv programName (RawArgs raw) =
     (if isDirectBinary programName raw then SYNTHETIC_RUNTIME # raw else raw)"
| "buildParseArgv programName (FallbackArgv tokens) =
     SYNTHETIC_RUNTIME # programName # tokens"

section \<open>Effects\<close>

text \<open>
  The commands act on the outside world: they print, set process-wide values and call
  collaborators that are outside the excerpt. A run is modelled by the list of these
  actions, in the order the source performs them, together with its outcome: the value
  returned or the error thrown. The reports of the memory commands are built with the terminal
  theme, which is outside the excerpt; an event records which report is printed and from
  which data, not its text.
\<close>

datatype js_error = JsError string

text \<open>
  Modelled from the spec: \<^verbatim>\<open>formatErrorMessage\<close> of cli-utils.ts, missing from the excerpt;
  it formats a caught error into a human-readable message.
\<close>

fun formatErrorMessage :: "js_error \<Rightarrow> string" where
  "formatErrorMessage (JsError msg) = msg"

record health_options =
  health_json :: bool
  health_timeoutMs :: "nat option"
  health_verbose :: bool

record status_options =
  status_json :: bool
  status_deep :: bool
  status_all :: bool
  status_usage :: bool
  status_timeoutMs :: "nat option"
  status_verbose :: bool

record sessions_options =
  sessions_json :: bool
  sessions_store :: "string option"
  sessions_active :: "string option"

record agents_list_options =
  agents_json :: bool
  agents_bindings :: bool

text \<open>
  \<^verbatim>\<open>MemoryCommandOptions\<close>. An optional boolean is only ever tested for truth, so an absent
  one is \<open>False\<close>; an absent \<^verbatim>\<open>agent\<close> is \<open>None\<close>.
\<close>

record MemoryCommandOptions =
  agent :: "string option"
  json :: bool
  deep :: bool
  index :: bool
  verbose :: bool

record memory_index_options = MemoryCommandOptions +
  force :: bool

record memory_search_options = MemoryCommandOptions +
  maxResults :: "real option"
  minScore :: "real option"

text \<open>
  What the external memory manager hands back. The commands only print these values; no
  branch modelled here reads a field of them.
\<close>

record memory_status =
  provider :: string
  requestedProvider :: string
  files :: nat
  chunks :: nat
  dirty :: bool

record embedding_probe =
  probe_ok :: bool
  probe_error :: "string option"

record search_hit =
  hit_path :: string
  hit_startLine :: nat
  hit_endLine :: nat
  hit_score :: real
  hit_snippet :: string

text \<open>An entry of \<^verbatim>\<open>allResults\<close> in \<^verbatim>\<open>runMemoryStatus\<close>.\<close>

record status_result =
  result_agentId :: string
  result_status :: memory_status
  result_embeddingProbe :: "embedding_probe option"
  result_indexError :: "string option"

datatype event =
    EmitCliBanner
  | EnsureConfigReady bool
  | EnsurePluginRegistryLoaded
  | SetVerbose bool
  | SetProcessTitle string
  | HealthCommand health_options
  | StatusCommand status_options
  | SessionsCommand sessions_options
  | AgentsListCommand agents_list_options
  | LoadConfig
  | GetMemorySearchManager string
  | ProbeVectorAvailability string
  | ProbeEmbeddingAvailability string
  | Sync string bool
  | Status string
  | Search string string
  | Close string
  | Log string
  | Error string
  | SetExitCode nat
  | LogIndexHeader string memory_status
  | LogStatusJson "status_result list"
  | LogStatusReport status_result
  | LogSearchJson "search_hit list"
  | LogSearchHits "search_hit list"

text \<open>
  \<open>EnsureConfigReady b\<close> is the call \<^verbatim>\<open>ensureConfigReady({runtime, migrateState: b})\<close>. The
  events from \<open>ProbeVectorAvailability\<close> to \<open>Close\<close> are the calls of the manager's methods,
  tagged with the agent id the manager was acquired for (\<open>Sync\<close> also carries \<^verbatim>\<open>force\<close>,
  \<open>Search\<close> the query). \<open>Error\<close> is \<^verbatim>\<open>defaultRuntime.error\<close>, \<open>SetExitCode n\<close> the assignment
  \<^verbatim>\<open>process.exitCode = n\<close>.
\<close>

type_synonym 'a io = "event list \<times> (js_error + 'a)"

definition ret :: "'a \<Rightarrow> 'a io" where
  "ret x = ([], Inr x)"

definition say :: "event list \<Rightarrow> unit io" where
  "say evs = (evs, Inr ())"

text \<open>A call of a collaborator: the call is recorded, then it returns or throws.\<close>

definition call :: "event \<Rightarrow> js_error + 'a \<Rightarrow> 'a io" where
  "call ev outcome = ([ev], outcome)"

text \<open>Sequencing: a thrown error skips the rest.\<close>

definition andThen :: "'a io \<Rightarrow> ('a \<Rightarrow> 'b io) \<Rightarrow> 'b io" where
  "andThen m f =
     (case m of
        (evs, Inl err) \<Rightarrow> (evs, Inl err)
      | (evs, Inr x) \<Rightarrow> (case f x of (evs', r) \<Rightarrow> (evs @ evs', r)))"

text \<open>\<^verbatim>\<open>try { m } catch (err) { handler(err) }\<close>.\<close>

definition tryCatch :: "'a io \<Rightarrow> (js_error \<Rightarrow> 'a io) \<Rightarrow> 'a io" where
  "tryCatch m handler =
     (case m of
        (evs, Inl err) \<Rightarrow> (case handler err of (evs', r) \<Rightarrow> (evs @ evs', r))
      | (evs, Inr x) \<Rightarrow> (evs, Inr x))"

text \<open>\<^verbatim>\<open>for (const x of xs) { await body(x) }\<close>, collecting what each round produces.\<close>

fun forEach :: "'a list \<Rightarrow> ('a \<Rightarrow> 'b io) \<Rightarrow> 'b list io" where
  "forEach [] body = ret []"
| "forEach (x # xs) body =
     andThen (body x) (\<lambda>r. andThen (forEach xs body) (\<lambda>rs. ret (r # rs)))"

text \<open>A string is truthy when it is not empty.\<close>

definition truthy :: "string \<Rightarrow> bool" where
  "truthy s = (s \<noteq> [])"

text \<open>
  \<^verbatim>\<open>String.prototype.trim\<close>. The characters of the model are the code units below 256; among
  them the white space and line terminators of the language are 9 to 13, 32 and 160.
\<close>

definition isWhiteSpace :: "char \<Rightarrow> bool" where
  "isWhiteSpace c = ((of_char c :: nat) \<in> {9, 10, 11, 12, 13, 32, 160})"

definition trim :: "string \<Rightarrow> string" where
  "trim s = rev (dropWhile isWhiteSpace (rev (dropWhile isWhiteSpace s)))"

section \<open>Memory CLI\<close>

text \<open>
  The configuration as far as the memory commands read it: \<open>agents_list\<close> is
  \<^verbatim>\<open>cfg.agents?.list\<close>, \<open>None\<close> when it is undefined; an entry is reduced to its \<^verbatim>\<open>id\<close>.
\<close>

record agent_entry =
  entry_id :: string

record config =
  agents_list :: "agent_entry list option"

text \<open>
  The external manager of one agent, given by the outcome of each of its methods in this
  run. \<^verbatim>\<open>getMemorySearchManager\<close> answers with \<^verbatim>\<open>{manager, error}\<close>.
\<close>

record manager =
  status :: "js_error + memory_status"
  sync :: "bool \<Rightarrow> js_error + unit"
  search :: "string \<Rightarrow> real option \<Rightarrow> real option \<Rightarrow> js_error + search_hit list"
  probeVectorAvailability :: "js_error + unit"
  probeEmbeddingAvailability :: "js_error + embedding_probe"
  close :: "js_error + unit"

record manager_result =
  result_manager :: "manager option"
  result_error :: "string option"

text \<open>
  The collaborators of the memory commands that are outside the excerpt, taken as
  parameters: what \<^verbatim>\<open>loadConfig()\<close> returns, \<^verbatim>\<open>resolveDefaultAgentId\<close> and
  \<^verbatim>\<open>getMemorySearchManager\<close>. Neither \<^verbatim>\<open>loadConfig\<close>, \<^verbatim>\<open>ensureConfigReady\<close>,
  \<^verbatim>\<open>getMemorySearchManager\<close> nor the command handlers are modelled as throwing.
\<close>

record externals =
  loadConfig :: config
  resolveDefaultAgentId :: "config \<Rightarrow> string"
  getMemorySearchManager :: "config \<Rightarrow> string \<Rightarrow> manager_result"

text \<open>\<^verbatim>\<open>resolveAgent\<close>, lines 39 to 43 of the memory CLI.\<close>

definition resolveAgent :: "externals \<Rightarrow> config \<Rightarrow> string option \<Rightarrow> string" where
  "resolveAgent X cfg agentOpt =
     (case map_option trim agentOpt of
        Some trimmed \<Rightarrow> if truthy trimmed then trimmed else resolveDefaultAgentId X cfg
      | None \<Rightarrow> resolveDefaultAgentId X cfg)"

text \<open>\<^verbatim>\<open>resolveAgentIds\<close>, lines 45 to 53; \<^verbatim>\<open>filter(Boolean)\<close> drops the empty ids.\<close>

definition resolveAgentIds :: "externals \<Rightarrow> config \<Rightarrow> string option \<Rightarrow> string list" where
  "resolveAgentIds X cfg agentOpt =
     (let fromConfig =
        (let entries = (case agents_list cfg of None \<Rightarrow> [] | Some l \<Rightarrow> l)
         in if length entries > 0 then filter truthy (map entry_id entries)
            else [resolveDefaultAgentId X cfg])
      in case map_option trim agentOpt of
           Some trimmed \<Rightarrow> if truthy trimmed then [trimmed] else fromConfig
         | None \<Rightarrow> fromConfig)"

text \<open>
  Modelled from the spec: \<^verbatim>\<open>withManager\<close> of cli-utils.ts, missing from the excerpt. The
  manager is acquired; when there is none, \<open>onMissing\<close> reports it and the command goes on
  without it. Otherwise \<open>run\<close> uses the manager, and the manager is closed on the success
  and on the error path; an error of \<open>close\<close> is reported through \<open>onCloseError\<close> and is not
  escalated. The value is what \<open>run\<close> produced, \<open>None\<close> when there was no manager (the source
  passes it through a variable that \<open>run\<close> assigns).
\<close>

definition withManager ::
  "manager_result io \<Rightarrow> (string option \<Rightarrow> unit io) \<Rightarrow> (js_error \<Rightarrow> unit io) \<Rightarrow>
   (manager \<Rightarrow> unit io) \<Rightarrow> (manager \<Rightarrow> 'a io) \<Rightarrow> 'a option io" where
  "withManager getManager onMissing onCloseError closeManager run =
     andThen getManager (\<lambda>res.
       case result_manager res of
         None \<Rightarrow> andThen (onMissing (result_error res)) (\<lambda>_. ret None)
       | Some m \<Rightarrow>
           (case run m of
              (evs, outcome) \<Rightarrow>
                (case tryCatch (closeManager m) onCloseError of
                   (evs', Inl err) \<Rightarrow> (evs @ evs', Inl err)
                 | (evs', Inr _) \<Rightarrow> (evs @ evs', map_sum id Some outcome))))"

text \<open>The three callbacks every memory command passes to \<^verbatim>\<open>withManager\<close>.\<close>

definition getManager :: "externals \<Rightarrow> config \<Rightarrow> string \<Rightarrow> manager_result io" where
  "getManager X cfg agentId =
     call (GetMemorySearchManager agentId) (Inr (getMemorySearchManager X cfg agentId))"

definition onMissing :: "string option \<Rightarrow> unit io" where
  "onMissing err =
     say [Log (case err of None \<Rightarrow> ''Memory search disabled.'' | Some msg \<Rightarrow> msg)]"

definition onCloseError :: "js_error \<Rightarrow> unit io" where
  "onCloseError err = say [Error (''Memory manager close failed: '' @ formatErrorMessage err)]"

definition closeManager :: "string \<Rightarrow> manager \<Rightarrow> unit io" where
  "closeManager agentId m = call (Close agentId) (close m)"

text \<open>
  The \<^verbatim>\<open>run\<close> callback of \<^verbatim>\<open>runMemoryStatus\<close>, lines 74 to 122. The progress wrappers
  only report progress and pass the callback's outcome on. The value is the entry the source
  pushes on \<^verbatim>\<open>allResults\<close>.
\<close>

definition statusRun :: "MemoryCommandOptions \<Rightarrow> string \<Rightarrow> manager \<Rightarrow> status_result io" where
  "statusRun opts agentId m =
     andThen
       (if deep opts \<or> index opts then
          andThen (call (ProbeVectorAvailability agentId) (probeVectorAvailability m)) (\<lambda>_.
          andThen (call (ProbeEmbeddingAvailability agentId) (probeEmbeddingAvailability m))
            (\<lambda>embeddingProbe.
               if index opts then
                 tryCatch
                   (andThen (call (Sync agentId False) (sync m False))
                      (\<lambda>_. ret (Some embeddingProbe, None)))
                   (\<lambda>err.
                      andThen
                        (say [Error (''Memory index failed: '' @ formatErrorMessage err),
                              SetExitCode 1])
                        (\<lambda>_. ret (Some embeddingProbe, Some (formatErrorMessage err))))
               else ret (Some embeddingProbe, None)))
        else
          andThen (call (ProbeVectorAvailability agentId) (probeVectorAvailability m))
            (\<lambda>_. ret (None, None)))
       (\<lambda>(embeddingProbe, indexError).
          andThen (call (Status agentId) (status m)) (\<lambda>st.
            ret \<lparr>result_agentId = agentId, result_status = st,
                 result_embeddingProbe = embeddingProbe, result_indexError = indexError\<rparr>))"

text \<open>The entries pushed by the rounds that had a manager.\<close>

fun pushedResults :: "'a option list \<Rightarrow> 'a list" where
  "pushedResults [] = []"
| "pushedResults (None # rs) = pushedResults rs"
| "pushedResults (Some r # rs) = r # pushedResults rs"

text \<open>The lines printed for one entry, lines 140 to 240.\<close>

definition statusReport :: "MemoryCommandOptions \<Rightarrow> status_result \<Rightarrow> unit io" where
  "statusReport opts result =
     say ((if index opts then
             [Log (case result_indexError result of
                     None \<Rightarrow> ''Memory index complete.''
                   | Some indexError \<Rightarrow>
                       if truthy indexError then ''Memory index failed: '' @ indexError
                       else ''Memory index complete.'')]
           else [])
          @ [LogStatusReport result, Log ''''])"

text \<open>\<^verbatim>\<open>runMemoryStatus\<close>, lines 55 to 241.\<close>

definition runMemoryStatus :: "externals \<Rightarrow> MemoryCommandOptions \<Rightarrow> unit io" where
  "runMemoryStatus X opts =
     andThen (say [EnsureConfigReady False, SetVerbose (verbose opts), LoadConfig]) (\<lambda>_.
       let cfg = loadConfig X;
           agentIds = resolveAgentIds X cfg (agent opts)
       in andThen
            (forEach agentIds (\<lambda>agentId.
               withManager (getManager X cfg agentId) onMissing onCloseError
                 (closeManager agentId) (statusRun opts agentId)))
            (\<lambda>pushed.
               let allResults = pushedResults pushed
               in if json opts then say [LogStatusJson allResults]
                  else andThen (forEach allResults (statusReport opts)) (\<lambda>_. ret ())))"

text \<open>
  The action of \<^verbatim>\<open>memory index\<close>, lines 271 to 380. The whole \<^verbatim>\<open>run\<close> callback is one
  \<^verbatim>\<open>try\<close> block; the timer that refreshes the progress label is not modelled.
\<close>

definition indexRun :: "memory_index_options \<Rightarrow> string \<Rightarrow> manager \<Rightarrow> unit io" where
  "indexRun opts agentId m =
     tryCatch
       (andThen
          (if verbose opts then
             andThen (call (Status agentId) (status m))
               (\<lambda>st. say [LogIndexHeader agentId st, Log ''''])
           else ret ())
          (\<lambda>_.
             andThen (call (Sync agentId (force opts)) (sync m (force opts))) (\<lambda>_.
               say [Log (''Memory index updated ('' @ agentId @ '').'')])))
       (\<lambda>err.
          say [Error (''Memory index failed ('' @ agentId @ ''): '' @ formatErrorMessage err),
               SetExitCode 1])"

definition memoryIndex :: "externals \<Rightarrow> memory_index_options \<Rightarrow> unit io" where
  "memoryIndex X opts =
     andThen (say [SetVerbose (verbose opts), LoadConfig]) (\<lambda>_.
       let cfg = loadConfig X;
           agentIds = resolveAgentIds X cfg (agent opts)
       in andThen
            (forEach agentIds (\<lambda>agentId.
               withManager (getManager X cfg agentId) onMissing onCloseError
                 (closeManager agentId) (indexRun opts agentId)))
            (\<lambda>_. ret ()))"

text \<open>The action of \<^verbatim>\<open>memory search\<close>, lines 390 to 444.\<close>

definition searchRun ::
  "memory_search_options \<Rightarrow> string \<Rightarrow> string \<Rightarrow> manager \<Rightarrow> unit io" where
  "searchRun opts query agentId m =
     andThen
       (tryCatch
          (andThen
             (call (Search agentId query) (search m query (maxResults opts) (minScore opts)))
             (\<lambda>results. ret (Some results)))
          (\<lambda>err.
             andThen
               (say [Error (''Memory search failed: '' @ formatErrorMessage err), SetExitCode 1])
               (\<lambda>_. ret None)))
       (\<lambda>found.
          case found of
            None \<Rightarrow> ret ()
          | Some results \<Rightarrow>
              if json opts then say [LogSearchJson results]
              else if length results = 0 then say [Log ''No matches.'']
              else say [LogSearchHits results])"

definition memorySearch :: "externals \<Rightarrow> string \<Rightarrow> memory_search_options \<Rightarrow> unit io" where
  "memorySearch X query opts =
     andThen (say [LoadConfig]) (\<lambda>_.
       let cfg = loadConfig X;
           agentId = resolveAgent X cfg (agent opts)
       in andThen
            (withManager (getManager X cfg agentId) onMissing onCloseError
               (closeManager agentId) (searchRun opts query agentId))
            (\<lambda>_. ret ()))"

text \<open>
  One round of the loop of \<^verbatim>\<open>runMemoryStatus\<close>, lines 67 to 124, under a name of its own.
\<close>

definition statusRound :: "externals \<Rightarrow> MemoryCommandOptions \<Rightarrow> string \<Rightarrow> status_result option io" where
  "statusRound X opts agentId =
     withManager (getManager X (loadConfig X) agentId) onMissing onCloseError
       (closeManager agentId) (statusRun opts agentId)"

text \<open>
  The elements of a list that a loop with the given body is sure to reach: an element is
  reached when the rounds of all elements before it have returned.
\<close>

fun roundsReached :: "('a \<Rightarrow> 'b io) \<Rightarrow> 'a list \<Rightarrow> 'a list" where
  "roundsReached body [] = []"
| "roundsReached body (x # xs) =
     x # (case snd (body x) of Inl _ \<Rightarrow> [] | Inr _ \<Rightarrow> roundsReached body xs)"

text \<open>The agents a run asked a manager for, in order.\<close>

fun managersRequested :: "event list \<Rightarrow> string list" where
  "managersRequested [] = []"
| "managersRequested (GetMemorySearchManager agentId # evs) = agentId # managersRequested evs"
| "managersRequested (_ # evs) = managersRequested evs"

section \<open>Route-first dispatcher\<close>

text \<open>
  What \<^verbatim>\<open>tryRouteCli\<close> imports from modules outside the excerpt, taken as parameters:
  \<^verbatim>\<open>isTruthyEnvValue\<close> of infra/env.ts, the four helpers of argv.ts and
  \<^verbatim>\<open>parsePositiveIntOrUndefined\<close> of program/helpers.ts. What is proved of the dispatcher
  for every such record holds for whatever these modules implement.
\<close>

record helpers =
  isTruthyEnvValue' :: "string option \<Rightarrow> bool"
  hasHelpOrVersion' :: "argv \<Rightarrow> bool"
  getCommandPath' :: "argv \<Rightarrow> nat \<Rightarrow> string list"
  hasFlag' :: "argv \<Rightarrow> string \<Rightarrow> bool"
  getFlagValue' :: "argv \<Rightarrow> string \<Rightarrow> flag_value"
  parsePositiveIntOrUndefined' :: "string option \<Rightarrow> nat option"

text \<open>\<^verbatim>\<open>const [primary, secondary] = path\<close>: a missing element is undefined.\<close>

fun destructure2 :: "string list \<Rightarrow> string option \<times> string option" where
  "destructure2 [] = (None, None)"
| "destructure2 [p] = (Some p, None)"
| "destructure2 (p # s # _) = (Some p, Some s)"

text \<open>A value that has passed the test \<^verbatim>\<open>=== null\<close>: a string or undefined.\<close>

fun definedValue :: "flag_value \<Rightarrow> string option" where
  "definedValue (Str s) = Some s"
| "definedValue _ = None"

text \<open>The five branches of \<^verbatim>\<open>tryRouteCli\<close>: lines 24-36, 38-53, 55-67, 69-76 and 78-88.\<close>

definition routeHealth :: "helpers \<Rightarrow> argv \<Rightarrow> bool io" where
  "routeHealth H argv =
     andThen (say [EmitCliBanner, EnsureConfigReady False, EnsurePluginRegistryLoaded]) (\<lambda>_.
       let jsonFlag = hasFlag' H argv ''--json'';
           verboseFlag = hasFlag' H argv ''--verbose'' \<or> hasFlag' H argv ''--debug'';
           timeout = getFlagValue' H argv ''--timeout''
       in if timeout = Null then ret False
          else
            let timeoutMs = parsePositiveIntOrUndefined' H (definedValue timeout)
            in andThen
                 (say [SetVerbose verboseFlag,
                       HealthCommand \<lparr>health_json = jsonFlag, health_timeoutMs = timeoutMs,
                                      health_verbose = verboseFlag\<rparr>])
                 (\<lambda>_. ret True))"

definition routeStatus :: "helpers \<Rightarrow> argv \<Rightarrow> bool io" where
  "routeStatus H argv =
     andThen (say [EmitCliBanner, EnsureConfigReady False, EnsurePluginRegistryLoaded]) (\<lambda>_.
       let jsonFlag = hasFlag' H argv ''--json'';
           deepFlag = hasFlag' H argv ''--deep'';
           allFlag = hasFlag' H argv ''--all'';
           usageFlag = hasFlag' H argv ''--usage'';
           verboseFlag = hasFlag' H argv ''--verbose'' \<or> hasFlag' H argv ''--debug'';
           timeout = getFlagValue' H argv ''--timeout''
       in if timeout = Null then ret False
          else
            let timeoutMs = parsePositiveIntOrUndefined' H (definedValue timeout)
            in andThen
                 (say [SetVerbose verboseFlag,
                       StatusCommand \<lparr>status_json = jsonFlag, status_deep = deepFlag,
                                      status_all = allFlag, status_usage = usageFlag,
                                      status_timeoutMs = timeoutMs,
                                      status_verbose = verboseFlag\<rparr>])
                 (\<lambda>_. ret True))"

definition routeSessions :: "helpers \<Rightarrow> argv \<Rightarrow> bool io" where
  "routeSessions H argv =
     andThen (say [EmitCliBanner, EnsureConfigReady False]) (\<lambda>_.
       let jsonFlag = hasFlag' H argv ''--json'';
           verboseFlag = hasFlag' H argv ''--verbose'';
           store = getFlagValue' H argv ''--store''
       in if store = Null then ret False
          else
            let active = getFlagValue' H argv ''--active''
            in if active = Null then ret False
               else andThen
                      (say [SetVerbose verboseFlag,
                            SessionsCommand \<lparr>sessions_json = jsonFlag,
                                             sessions_store = definedValue store,
                                             sessions_active = definedValue active\<rparr>])
                      (\<lambda>_. ret True))"

definition routeAgentsList :: "helpers \<Rightarrow> argv \<Rightarrow> bool io" where
  "routeAgentsList H argv =
     andThen (say [EmitCliBanner, EnsureConfigReady True]) (\<lambda>_.
       let jsonFlag = hasFlag' H argv ''--json'';
           bindingsFlag = hasFlag' H argv ''--bindings''
       in andThen
            (say [AgentsListCommand \<lparr>agents_json = jsonFlag, agents_bindings = bindingsFlag\<rparr>])
            (\<lambda>_. ret True))"

definition routeMemoryStatus :: "helpers \<Rightarrow> externals \<Rightarrow> argv \<Rightarrow> bool io" where
  "routeMemoryStatus H X argv =
     andThen (say [EmitCliBanner]) (\<lambda>_.
       let agentValue = getFlagValue' H argv ''--agent''
       in if agentValue = Null then ret False
          else
            let jsonFlag = hasFlag' H argv ''--json'';
                deepFlag = hasFlag' H argv ''--deep'';
                indexFlag = hasFlag' H argv ''--index'';
                verboseFlag = hasFlag' H argv ''--verbose''
            in andThen
                 (runMemoryStatus X
                    \<lparr>agent = definedValue agentValue, json = jsonFlag, deep = deepFlag,
                     index = indexFlag, verbose = verboseFlag\<rparr>)
                 (\<lambda>_. ret True))"

text \<open>
  \<^verbatim>\<open>tryRouteCli\<close>, lines 16 to 91; \<open>env\<close> is the value of
  \<^verbatim>\<open>process.env.CLAWDBOT_DISABLE_ROUTE_FIRST\<close>, \<open>None\<close> when the variable is not set. The test
  \<^verbatim>\<open>!primary\<close> holds for an undefined and for an empty primary.
\<close>

definition tryRouteCli :: "helpers \<Rightarrow> externals \<Rightarrow> string option \<Rightarrow> argv \<Rightarrow> bool io" where
  "tryRouteCli H X env argv =
     (if isTruthyEnvValue' H env then ret False
      else if hasHelpOrVersion' H argv then ret False
      else
        case destructure2 (getCommandPath' H argv 2) of
          (primary, secondary) \<Rightarrow>
            if primary = None \<or> primary = Some '''' then ret False
            else if primary = Some ''health'' then routeHealth H argv
            else if primary = Some ''status'' then routeStatus H argv
            else if primary = Some ''sessions'' then routeSessions H argv
            else if primary = Some ''agents'' \<and> secondary = Some ''list''
              then routeAgentsList H argv
            else if primary = Some ''memory'' \<and> secondary = Some ''status''
              then routeMemoryStatus H X argv
            else ret False)"

text \<open>The primary and the secondary command as \<^verbatim>\<open>tryRouteCli\<close> reads them.\<close>

definition primaryOf :: "helpers \<Rightarrow> argv \<Rightarrow> string option" where
  "primaryOf H argv = fst (destructure2 (getCommandPath' H argv 2))"

definition secondaryOf :: "helpers \<Rightarrow> argv \<Rightarrow> string option" where
  "secondaryOf H argv = snd (destructure2 (getCommandPath' H argv 2))"

text \<open>The migration flags of the readiness checks of a run, in order.\<close>

fun readinessChecks :: "event list \<Rightarrow> bool list" where
  "readinessChecks [] = []"
| "readinessChecks (EnsureConfigReady migrateState # evs) = migrateState # readinessChecks evs"
| "readinessChecks (_ # evs) = readinessChecks evs"

text \<open>
  Events that are neither a readiness check nor a request for a manager: all that the
  callbacks handed to \<^verbatim>\<open>withManager\<close> do.
\<close>

fun isReadinessCheck :: "event \<Rightarrow> bool" where
  "isReadinessCheck (EnsureConfigReady _) = True"
| "isReadinessCheck _ = False"

fun isManagerRequest :: "event \<Rightarrow> bool" where
  "isManagerRequest (GetMemorySearchManager _) = True"
| "isManagerRequest _ = False"

definition plainEvent :: "event \<Rightarrow> bool" where
  "plainEvent e = (\<not> isReadinessCheck e \<and> \<not> isManagerRequest e)"

text \<open>
  The five fast paths as a predicate on the command path: \<^verbatim>\<open>health\<close>, \<^verbatim>\<open>status\<close>,
  \<^verbatim>\<open>sessions\<close>, \<^verbatim>\<open>agents list\<close> and \<^verbatim>\<open>memory status\<close>.
\<close>

fun isFastPath :: "string list \<Rightarrow> bool" where
  "isFastPath [] = False"
| "isFastPath [p] = (p = ''health'' \<or> p = ''status'' \<or> p = ''sessions'')"
| "isFastPath (p # s # _) =
     (p = ''health'' \<or> p = ''status'' \<or> p = ''sessions'' \<or>
      (p = ''agents'' \<and> s = ''list'') \<or> (p = ''memory'' \<and> s = ''status''))"

text \<open>
  Modelled from the spec: \<^verbatim>\<open>isTruthyEnvValue\<close> of infra/env.ts, missing from the excerpt; the
  variable disables the dispatcher when it holds any truthy value.
\<close>

definition isTruthyEnvValue :: "string option \<Rightarrow> bool" where
  "isTruthyEnvValue v = (case v of None \<Rightarrow> False | Some s \<Rightarrow> truthy s)"

text \<open>
  Modelled from the spec: \<^verbatim>\<open>parsePositiveIntOrUndefined\<close> of program/helpers.ts, missing
  from the excerpt: the positive integer a value parses as, undefined (\<open>None\<close>) when there is
  no value or it does not parse as one. The values read here are the decimal numerals.
\<close>

definition isDigit :: "char \<Rightarrow> bool" where
  "isDigit c = (48 \<le> (of_char c :: nat) \<and> (of_char c :: nat) \<le> 57)"

definition parseDecimal :: "string \<Rightarrow> nat option" where
  "parseDecimal s =
     (if s \<noteq> [] \<and> list_all isDigit s
      then Some (foldl (\<lambda>n c. 10 * n + (of_char c - 48)) 0 s)
      else None)"

definition parsePositiveIntOrUndefined :: "string option \<Rightarrow> nat option" where
  "parsePositiveIntOrUndefined v =
     (case v of
        None \<Rightarrow> None
      | Some s \<Rightarrow>
          (case parseDecimal s of
             None \<Rightarrow> None
           | Some n \<Rightarrow> if 0 < n then Some n else None))"

text \<open>The helpers as the specification describes them.\<close>

definition specHelpers :: helpers where
  "specHelpers =
     \<lparr>isTruthyEnvValue' = isTruthyEnvValue,
      hasHelpOrVersion' = hasHelpOrVersion,
      getCommandPath' = getCommandPath,
      hasFlag' = hasFlag,
      getFlagValue' = getFlagValue,
      parsePositiveIntOrUndefined' = parsePositiveIntOrUndefined\<rparr>"

section \<open>Pre-action hook\<close>

text \<open>A node of the command tree: its name and its parent, if any.\<close>

datatype command = Command (command_name: string) (command_parent: "command option")

text \<open>
  The loop of \<^verbatim>\<open>setProcessTitleForCommand\<close>, lines 8 to 11: walk up while the current node
  has a parent that has a parent.
\<close>

fun topLevelCommand :: "command \<Rightarrow> command" where
  "topLevelCommand (Command n None) = Command n None"
| "topLevelCommand (Command n (Some p)) =
     (case command_parent p of
        None \<Rightarrow> Command n (Some p)
      | Some _ \<Rightarrow> topLevelCommand p)"

definition setProcessTitleForCommand :: "command \<Rightarrow> event list" where
  "setProcessTitleForCommand actionCommand =
     (let n = command_name (topLevelCommand actionCommand)
      in if \<not> truthy n \<or> n = ''clawdbot'' then []
         else [SetProcessTitle (''clawdbot-'' @ n)])"

text \<open>
  The hook registered by \<^verbatim>\<open>registerPreActionHooks\<close>, lines 18 to 27, as the list of its
  actions. Besides the helpers it takes \<^verbatim>\<open>isReadOnlyCommand\<close> of argv.ts, also missing from
  the excerpt, as a parameter.
\<close>

definition preAction :: "helpers \<Rightarrow> (argv \<Rightarrow> bool) \<Rightarrow> command \<Rightarrow> argv \<Rightarrow> event list" where
  "preAction H isReadOnlyCommand actionCommand argv =
     setProcessTitleForCommand actionCommand @ [EmitCliBanner] @
     (if hasHelpOrVersion' H argv then []
      else
        case destructure2 (getCommandPath' H argv 1) of
          (primary, _) \<Rightarrow>
            if primary = Some ''doctor'' then []
            else
              let migrateState = \<not> isReadOnlyCommand argv
              in [EnsureConfigReady migrateState])"

text \<open>The top-level command as the hook reads it from the arguments.\<close>

definition hookPrimary :: "helpers \<Rightarrow> argv \<Rightarrow> string option" where
  "hookPrimary H argv = fst (destructure2 (getCommandPath' H argv 1))"

section \<open>A sample installation\<close>

text \<open>
  Concrete collaborators on which the commands can be run: two configured agents,
  \<^verbatim>\<open>main\<close> and \<^verbatim>\<open>work\<close>, with \<^verbatim>\<open>main\<close> the default. The manager of \<^verbatim>\<open>main\<close> fails to
  index and to search, the manager of every other agent works.
\<close>

definition workingManager :: manager where
  "workingManager =
     \<lparr>status = Inr \<lparr>provider = ''local'', requestedProvider = ''auto'',
                     files = 3, chunks = 12, dirty = False\<rparr>,
      sync = (\<lambda>_. Inr ()),
      search = (\<lambda>_ _ _. Inr []),
      probeVectorAvailability = Inr (),
      probeEmbeddingAvailability = Inr \<lparr>probe_ok = True, probe_error = None\<rparr>,
      close = Inr ()\<rparr>"

definition failingManager :: manager where
  "failingManager =
     workingManager
       \<lparr>sync := (\<lambda>_. Inl (JsError ''disk full'')),
        search := (\<lambda>_ _ _. Inl (JsError ''index missing''))\<rparr>"

definition sampleExternals :: externals where
  "sampleExternals =
     \<lparr>loadConfig = \<lparr>agents_list = Some [\<lparr>entry_id = ''main''\<rparr>, \<lparr>entry_id = ''work''\<rparr>]\<rparr>,
      resolveDefaultAgentId = (\<lambda>_. ''main''),
      getMemorySearchManager =
        (\<lambda>_ agentId.
           \<lparr>result_manager =
              Some (if agentId = ''main'' then failingManager else workingManager),
            result_error = None\<rparr>)\<rparr>"

text \<open>
  The options of \<^verbatim>\<open>memory index\<close> and \<^verbatim>\<open>memory search\<close> given no flag, and a
  configuration one of whose entries has an empty id.
\<close>

definition bareIndexOptions :: memory_index_options where
  "bareIndexOptions =
     \<lparr>agent = None, json = False, deep = False, index = False, verbose = False, force = False\<rparr>"

definition bareSearchOptions :: memory_search_options where
  "bareSearchOptions =
     \<lparr>agent = None, json = False, deep = False, index = False, verbose = False,
      maxResults = None, minScore = None\<rparr>"

definition blankIdExternals :: externals where
  "blankIdExternals =
     sampleExternals
       \<lparr>loadConfig := \<lparr>agents_list = Some [\<lparr>entry_id = ''''\<rparr>, \<lparr>entry_id = ''work''\<rparr>]\<rparr>\<rparr>"

text \<open>
  The sample installation with a manager of \<^verbatim>\<open>main\<close> whose vector probe throws, and the
  options of \<^verbatim>\<open>memory status\<close> given no flag.
\<close>

definition probeFailsExternals :: externals where
  "probeFailsExternals =
     sampleExternals
       \<lparr>getMemorySearchManager :=
          (\<lambda>_ agentId.
             \<lparr>result_manager =
                Some (if agentId = ''main''
                      then workingManager
                             \<lparr>probeVectorAvailability := Inl (JsError ''no vector extension'')\<rparr>
                      else workingManager),
              result_error = None\<rparr>)\<rparr>"

definition bareStatusOptions :: MemoryCommandOptions where
  "bareStatusOptions =
     \<lparr>agent = None, json = False, deep = False, index = False, verbose = False\<rparr>"

section \<open>Properties of the argv helpers\<close>

lemma startsWith_assign: "startsWith (name @ CHR ''='' # v) (name @ ''='')"
  by (simp add: startsWith_def)

lemma assign_form_not_terminator: "name @ CHR ''='' # v \<noteq> FLAG_TERMINATOR"
proof
  assume "name @ CHR ''='' # v = FLAG_TERMINATOR"
  then have "CHR ''='' \<in> set FLAG_TERMINATOR"
    by (metis in_set_conv_decomp append_Cons)
  then show False by (simp add: FLAG_TERMINATOR_def)
qed

lemma getFlagValue_skip:
  "\<forall>t \<in> set pre. t \<noteq> FLAG_TERMINATOR \<and> \<not> namesFlag name t \<Longrightarrow>
   getFlagValue (pre @ rest) name = getFlagValue rest name"
  by (induction pre) (auto simp: namesFlag_def)

lemma getFlagValue_absent:
  "\<forall>t \<in> set pre. \<not> namesFlag name t \<Longrightarrow> getFlagValue pre name = Undefined"
  by (induction pre) (auto simp: namesFlag_def)

lemma getFlagValue_cut:
  "getFlagValue (pre @ FLAG_TERMINATOR # post) name = getFlagValue pre name"
  by (induction pre)
     (auto simp: isFlagShaped_def startsWith_def FLAG_TERMINATOR_def split: list.splits)

lemma getFlagValue_assign:
  "getFlagValue ((name @ CHR ''='' # v) # post) name = Str v"
  by (simp add: assign_form_not_terminator startsWith_assign)

lemma getFlagValue_bare:
  "name \<noteq> FLAG_TERMINATOR \<Longrightarrow>
   getFlagValue (name # rest) name =
     (case rest of [] \<Rightarrow> Null | w # _ \<Rightarrow> if isFlagShaped w then Null else Str w)"
  by simp

lemma hasFlag_cut: "hasFlag (pre @ FLAG_TERMINATOR # post) name = hasFlag pre name"
  by (induction pre) auto

lemma hasFlag_absent: "name \<notin> set pre \<Longrightarrow> \<not> hasFlag pre name"
  by (induction pre) auto

lemma scanCommandPath_cut:
  "scanCommandPath (pre @ FLAG_TERMINATOR # post) = scanCommandPath pre"
  by (induction pre) auto

lemma scanCommandPath_takeWhile:
  "scanCommandPath args =
     takeWhile (\<lambda>arg. arg \<noteq> FLAG_TERMINATOR \<and> \<not> isFlagShaped arg) args"
  by (induction args) auto

lemma scanHelpOrVersion_cut:
  "scanHelpOrVersion (pre @ FLAG_TERMINATOR # post) = scanHelpOrVersion pre"
  by (induction pre) auto

lemma scanHelpOrVersion_absent:
  "\<forall>t \<in> set pre. \<not> isHelpOrVersionToken t \<Longrightarrow> \<not> scanHelpOrVersion pre"
  by (induction pre) auto

text \<open>Every assertion of \<^verbatim>\<open>argv.test.ts\<close> about these helpers holds of the model.\<close>

lemma argv_test_ts:
  "hasHelpOrVersion [''node'', ''clawdbot'', ''--help'']"
  "hasHelpOrVersion [''node'', ''clawdbot'', ''-V'']"
  "\<not> hasHelpOrVersion [''node'', ''clawdbot'', ''status'']"
  "getCommandPath [''node'', ''clawdbot'', ''status'', ''--json''] 2 = [''status'']"
  "getCommandPath [''node'', ''clawdbot'', ''agents'', ''list''] 2 = [''agents'', ''list'']"
  "getCommandPath [''node'', ''clawdbot'', ''status'', ''--'', ''ignored''] 2 = [''status'']"
  "getPrimaryCommand [''node'', ''clawdbot'', ''agents'', ''list''] = Some ''agents''"
  "getPrimaryCommand [''node'', ''clawdbot''] = None"
  "hasFlag [''node'', ''clawdbot'', ''status'', ''--json''] ''--json''"
  "\<not> hasFlag [''node'', ''clawdbot'', ''--'', ''--json''] ''--json''"
  "getFlagValue [''node'', ''clawdbot'', ''status'', ''--timeout'', ''5000''] ''--timeout''
     = Str ''5000''"
  "getFlagValue [''node'', ''clawdbot'', ''status'', ''--timeout=2500''] ''--timeout''
     = Str ''2500''"
  "getFlagValue [''node'', ''clawdbot'', ''status'', ''--timeout''] ''--timeout'' = Null"
  "getFlagValue [''node'', ''clawdbot'', ''status'', ''--timeout'', ''--json''] ''--timeout''
     = Null"
  "getFlagValue [''node'', ''clawdbot'', ''--'', ''--timeout=99''] ''--timeout'' = Undefined"
  "buildParseArgv ''clawdbot'' (RawArgs [''node'', ''clawdbot'', ''status''])
     = [''node'', ''clawdbot'', ''status'']"
  "buildParseArgv ''clawdbot'' (RawArgs [''clawdbot'', ''status''])
     = [''node'', ''clawdbot'', ''status'']"
  "buildParseArgv ''clawdbot'' (RawArgs [''bun'', ''src/entry.ts'', ''status''])
     = [''bun'', ''src/entry.ts'', ''status'']"
  "buildParseArgv ''clawdbot'' (FallbackArgv [''status''])
     = [''node'', ''clawdbot'', ''status'']"
  by (simp_all add: hasHelpOrVersion_def getCommandPath_def getPrimaryCommand_def
        FLAG_TERMINATOR_def isFlagShaped_def startsWith_def isHelpOrVersionToken_def
        isDirectBinary_def SYNTHETIC_RUNTIME_def)

text \<open>
  Claim C3. The lookup \<^verbatim>\<open>getFlagValue(argv, name)\<close> is decided by the first token that
  names the flag. Let \<open>pre\<close> be tokens none of which is the terminator or names the flag.
  If the next token is \<^verbatim>\<open>name=v\<close>, the result is the string \<open>v\<close>, which may be empty. If it
  is the bare name (a name other than the terminator itself), the result is the token \<open>w\<close>
  after it when \<open>w\<close> is not flag-shaped, and \<^verbatim>\<open>null\<close> when the name is the last token or
  \<open>w\<close> is flag-shaped. If no token of \<open>pre\<close> names the flag, the result for \<open>pre\<close> is
  \<^verbatim>\<open>undefined\<close>, and it stays \<^verbatim>\<open>undefined\<close> whatever follows a terminator after \<open>pre\<close>.
\<close>

theorem getFlagValue_results:
  "((\<forall>t \<in> set pre. t \<noteq> FLAG_TERMINATOR \<and> \<not> namesFlag name t) \<longrightarrow>
      getFlagValue (pre @ (name @ ''='' @ v) # post) name = Str v \<and>
      (name \<noteq> FLAG_TERMINATOR \<longrightarrow>
         (\<not> isFlagShaped w \<longrightarrow> getFlagValue (pre @ name # w # post) name = Str w) \<and>
         getFlagValue (pre @ [name]) name = Null \<and>
         (isFlagShaped w \<longrightarrow> getFlagValue (pre @ name # w # post) name = Null))) \<and>
   ((\<forall>t \<in> set pre. \<not> namesFlag name t) \<longrightarrow>
      getFlagValue pre name = Undefined \<and>
      getFlagValue (pre @ FLAG_TERMINATOR # post) name = Undefined)"
proof (intro conjI impI)
  assume pre: "\<forall>t \<in> set pre. t \<noteq> FLAG_TERMINATOR \<and> \<not> namesFlag name t"
  show "getFlagValue (pre @ (name @ ''='' @ v) # post) name = Str v"
    using getFlagValue_skip [OF pre] getFlagValue_assign [of name v post]
    by (simp del: getFlagValue.simps)
  assume name: "name \<noteq> FLAG_TERMINATOR"
  show "getFlagValue (pre @ [name]) name = Null"
    using getFlagValue_skip [OF pre] getFlagValue_bare [OF name]
    by (simp del: getFlagValue.simps)
  {
    assume "\<not> isFlagShaped w"
    then show "getFlagValue (pre @ name # w # post) name = Str w"
      using getFlagValue_skip [OF pre] getFlagValue_bare [OF name]
      by (simp del: getFlagValue.simps)
  }
  {
    assume "isFlagShaped w"
    then show "getFlagValue (pre @ name # w # post) name = Null"
      using getFlagValue_skip [OF pre] getFlagValue_bare [OF name]
      by (simp del: getFlagValue.simps)
  }
next
  assume "\<forall>t \<in> set pre. \<not> namesFlag name t"
  then show "getFlagValue pre name = Undefined"
    by (rule getFlagValue_absent)
  then show "getFlagValue (pre @ FLAG_TERMINATOR # post) name = Undefined"
    by (simp only: getFlagValue_cut)
qed

theorem getFlagValue_results_witness:
  "getFlagValue [''node'', ''cb'', ''--x=v'', ''p''] ''--x'' = Str ''v'' \<and>
   getFlagValue [''node'', ''cb'', ''--x'', ''v'', ''p''] ''--x'' = Str ''v'' \<and>
   getFlagValue [''node'', ''cb'', ''--x''] ''--x'' = Null \<and>
   getFlagValue [''node'', ''cb'', ''--x'', ''--y'', ''p''] ''--x'' = Null \<and>
   getFlagValue [''node'', ''cb''] ''--x'' = Undefined \<and>
   getFlagValue [''node'', ''cb'', ''--'', ''--x'', ''v''] ''--x'' = Undefined"
  using getFlagValue_results [of "[''node'', ''cb'']" "''--x''" "''v''" "[''p'']" "''v''"]
        getFlagValue_results [of "[''node'', ''cb'']" "''--x''" "''v''" "[''p'']" "''--y''"]
        getFlagValue_results [of "[''node'', ''cb'']" "''--x''" "''v''" "[''--x'', ''v'']" "''v''"]
  by (simp add: namesFlag_def startsWith_def isFlagShaped_def FLAG_TERMINATOR_def)

text \<open>
  Claim C4. Tokens after the first terminator are never interpreted. For a terminator
  among the tokens a helper scans, the result for \<open>pre\<close>, terminator, \<open>post\<close> is the result
  for \<open>pre\<close> alone, whatever \<open>post\<close> is: for \<^verbatim>\<open>hasFlag\<close> and \<^verbatim>\<open>getFlagValue\<close>, for
  \<^verbatim>\<open>getCommandPath\<close> (scanning after the \<open>skipped\<close> leading tokens) and for
  \<^verbatim>\<open>hasHelpOrVersion\<close> (scanning after launcher and program name). So a flag that occurs
  only after the terminator is not found by \<^verbatim>\<open>hasFlag\<close> and gives \<^verbatim>\<open>undefined\<close> in
  \<^verbatim>\<open>getFlagValue\<close>, the command path is an initial segment of \<open>pre\<close>, and a help or version
  token that occurs only after the terminator is not seen.
\<close>

theorem terminator_ends_interpretation:
  "hasFlag (pre @ FLAG_TERMINATOR # post) name = hasFlag pre name \<and>
   (name \<notin> set pre \<longrightarrow> \<not> hasFlag (pre @ FLAG_TERMINATOR # post) name) \<and>
   getFlagValue (pre @ FLAG_TERMINATOR # post) name = getFlagValue pre name \<and>
   ((\<forall>t \<in> set pre. \<not> namesFlag name t) \<longrightarrow>
      getFlagValue (pre @ FLAG_TERMINATOR # post) name = Undefined) \<and>
   getCommandPath (skipped @ pre @ FLAG_TERMINATOR # post) (length skipped) =
     getCommandPath (skipped @ pre) (length skipped) \<and>
   take (length (getCommandPath (skipped @ pre @ FLAG_TERMINATOR # post) (length skipped))) pre =
     getCommandPath (skipped @ pre @ FLAG_TERMINATOR # post) (length skipped) \<and>
   hasHelpOrVersion (launcher # program # pre @ FLAG_TERMINATOR # post) =
     hasHelpOrVersion (launcher # program # pre) \<and>
   ((\<forall>t \<in> set pre. \<not> isHelpOrVersionToken t) \<longrightarrow>
      \<not> hasHelpOrVersion (launcher # program # pre @ FLAG_TERMINATOR # post))"
proof (intro conjI impI)
  show "hasFlag (pre @ FLAG_TERMINATOR # post) name = hasFlag pre name"
    by (rule hasFlag_cut)
  show "getFlagValue (pre @ FLAG_TERMINATOR # post) name = getFlagValue pre name"
    by (rule getFlagValue_cut)
  show "getCommandPath (skipped @ pre @ FLAG_TERMINATOR # post) (length skipped) =
      getCommandPath (skipped @ pre) (length skipped)"
    by (simp add: getCommandPath_def scanCommandPath_cut)
  have "take (length (scanCommandPath pre)) pre = scanCommandPath pre"
    by (simp add: scanCommandPath_takeWhile takeWhile_eq_take [symmetric])
  then show
    "take (length (getCommandPath (skipped @ pre @ FLAG_TERMINATOR # post) (length skipped))) pre =
      getCommandPath (skipped @ pre @ FLAG_TERMINATOR # post) (length skipped)"
    by (simp add: getCommandPath_def scanCommandPath_cut)
  show "hasHelpOrVersion (launcher # program # pre @ FLAG_TERMINATOR # post) =
      hasHelpOrVersion (launcher # program # pre)"
    by (simp add: hasHelpOrVersion_def scanHelpOrVersion_cut)
next
  assume "name \<notin> set pre"
  then show "\<not> hasFlag (pre @ FLAG_TERMINATOR # post) name"
    by (simp add: hasFlag_cut hasFlag_absent)
next
  assume "\<forall>t \<in> set pre. \<not> namesFlag name t"
  then show "getFlagValue (pre @ FLAG_TERMINATOR # post) name = Undefined"
    by (simp add: getFlagValue_cut getFlagValue_absent)
next
  assume "\<forall>t \<in> set pre. \<not> isHelpOrVersionToken t"
  then show "\<not> hasHelpOrVersion (launcher # program # pre @ FLAG_TERMINATOR # post)"
    by (simp add: hasHelpOrVersion_def scanHelpOrVersion_cut scanHelpOrVersion_absent)
qed

theorem terminator_ends_interpretation_witness:
  "\<not> hasFlag [''node'', ''cb'', ''status'', ''--'', ''--json''] ''--json'' \<and>
   getFlagValue [''node'', ''cb'', ''status'', ''--'', ''--json''] ''--json'' = Undefined \<and>
   getCommandPath [''node'', ''cb'', ''status'', ''--'', ''--json''] 2 = [''status''] \<and>
   \<not> hasHelpOrVersion [''node'', ''cb'', ''status'', ''--'', ''--help'']"
  using terminator_ends_interpretation
          [of "[''node'', ''cb'', ''status'']" "[''--json'']" "''--json''" "[]" "''n''" "''c''"]
        terminator_ends_interpretation
          [of "[''status'']" "[''--json'']" "''--json''" "[''node'', ''cb'']" "''node''" "''cb''"]
        terminator_ends_interpretation
          [of "[''status'']" "[''--help'']" "''--json''" "[''node'', ''cb'']" "''node''" "''cb''"]
  by (simp add: namesFlag_def startsWith_def isFlagShaped_def FLAG_TERMINATOR_def
        isHelpOrVersionToken_def getCommandPath_def hasHelpOrVersion_def)

section \<open>Properties of the effects\<close>

lemma andThen_ret [simp]: "andThen (ret x) f = f x"
  by (simp add: andThen_def ret_def split: prod.splits)

lemma andThen_say [simp]: "andThen (say evs) f = (evs @ fst (f ()), snd (f ()))"
  by (simp add: andThen_def say_def split: prod.splits)

lemma andThen_call_Inr [simp]: "andThen (call ev (Inr x)) f = (ev # fst (f x), snd (f x))"
  by (simp add: andThen_def call_def split: prod.splits)

lemma andThen_call_Inl [simp]: "andThen (call ev (Inl err)) f = ([ev], Inl err)"
  by (simp add: andThen_def call_def)

lemma fst_ret [simp]: "fst (ret x) = []" and snd_ret [simp]: "snd (ret x) = Inr x"
  by (simp_all add: ret_def)

lemma fst_say [simp]: "fst (say evs) = evs" and snd_say [simp]: "snd (say evs) = Inr ()"
  by (simp_all add: say_def)

lemma fst_call [simp]: "fst (call ev outcome) = [ev]"
  and snd_call [simp]: "snd (call ev outcome) = outcome"
  by (simp_all add: call_def)

lemma fst_andThen:
  "fst (andThen m f) = fst m @ (case snd m of Inl _ \<Rightarrow> [] | Inr x \<Rightarrow> fst (f x))"
  by (cases m) (simp add: andThen_def split: sum.splits prod.splits)

lemma snd_andThen:
  "snd (andThen m f) = (case snd m of Inl err \<Rightarrow> Inl err | Inr x \<Rightarrow> snd (f x))"
  by (cases m) (simp add: andThen_def split: sum.splits prod.splits)

lemma fst_tryCatch:
  "fst (tryCatch m h) = fst m @ (case snd m of Inl err \<Rightarrow> fst (h err) | Inr _ \<Rightarrow> [])"
  by (cases m) (simp add: tryCatch_def split: sum.splits prod.splits)

lemma snd_tryCatch:
  "snd (tryCatch m h) = (case snd m of Inl err \<Rightarrow> snd (h err) | Inr x \<Rightarrow> Inr x)"
  by (cases m) (simp add: tryCatch_def split: sum.splits prod.splits)

lemma fst_forEach_total:
  "\<forall>x \<in> set xs. \<exists>r. snd (body x) = Inr r \<Longrightarrow>
   fst (forEach xs body) = concat (map (\<lambda>x. fst (body x)) xs)"
  by (induction xs) (auto simp: fst_andThen snd_andThen split: sum.splits)


lemma close_reported:
  "snd (tryCatch (closeManager a m) onCloseError) = Inr ()"
  by (simp add: snd_tryCatch closeManager_def onCloseError_def split: sum.splits)

lemma fst_withManager:
  "fst (withManager (getManager X cfg a) onMissing onCloseError (closeManager a) run) =
     GetMemorySearchManager a #
       (case result_manager (getMemorySearchManager X cfg a) of
          None \<Rightarrow> fst (onMissing (result_error (getMemorySearchManager X cfg a)))
        | Some m \<Rightarrow> fst (run m) @ fst (tryCatch (closeManager a m) onCloseError))"
proof (cases "result_manager (getMemorySearchManager X cfg a)")
  case None
  then show ?thesis
    by (simp add: withManager_def getManager_def onMissing_def)
next
  case (Some m)
  obtain evs outcome where run: "run m = (evs, outcome)" by (cases "run m")
  obtain evs' where cl: "tryCatch (closeManager a m) onCloseError = (evs', Inr ())"
    using close_reported [of a m] by (cases "tryCatch (closeManager a m) onCloseError") simp
  show ?thesis
    by (simp add: withManager_def getManager_def Some run cl)
qed

lemma snd_withManager:
  "snd (withManager (getManager X cfg a) onMissing onCloseError (closeManager a) run) =
       (case result_manager (getMemorySearchManager X cfg a) of
          None \<Rightarrow> Inr None
        | Some m \<Rightarrow> map_sum id Some (snd (run m)))"
proof (cases "result_manager (getMemorySearchManager X cfg a)")
  case None
  then show ?thesis
    by (simp add: withManager_def getManager_def onMissing_def)
next
  case (Some m)
  obtain evs outcome where run: "run m = (evs, outcome)" by (cases "run m")
  obtain evs' where cl: "tryCatch (closeManager a m) onCloseError = (evs', Inr ())"
    using close_reported [of a m] by (cases "tryCatch (closeManager a m) onCloseError") simp
  show ?thesis
    by (simp add: withManager_def getManager_def Some run cl)
qed

section \<open>Properties of the route-first dispatcher\<close>

lemma isFastPath_destructure2:
  "isFastPath path =
     (case destructure2 path of
        (None, _) \<Rightarrow> False
      | (Some p, s) \<Rightarrow>
          p = ''health'' \<or> p = ''status'' \<or> p = ''sessions'' \<or>
          (p = ''agents'' \<and> s = Some ''list'') \<or> (p = ''memory'' \<and> s = Some ''status''))"
  by (cases path rule: destructure2.cases) simp_all

lemma destructure2_Nil: "destructure2 path = (None, s) \<Longrightarrow> path = []"
  by (cases path rule: destructure2.cases) simp_all

lemma tryRouteCli_branches:
  assumes "destructure2 (getCommandPath' H argv 2) = (primary, secondary)"
  shows "tryRouteCli H X env argv =
     (if isTruthyEnvValue' H env then ret False
      else if hasHelpOrVersion' H argv then ret False
      else if primary = None \<or> primary = Some '''' then ret False
      else if primary = Some ''health'' then routeHealth H argv
      else if primary = Some ''status'' then routeStatus H argv
      else if primary = Some ''sessions'' then routeSessions H argv
      else if primary = Some ''agents'' \<and> secondary = Some ''list''
        then routeAgentsList H argv
      else if primary = Some ''memory'' \<and> secondary = Some ''status''
        then routeMemoryStatus H X argv
      else ret False)"
  unfolding tryRouteCli_def assms by simp

lemma isFastPath_branches:
  assumes "destructure2 path = (primary, secondary)"
  shows "isFastPath path \<longleftrightarrow>
     primary = Some ''health'' \<or> primary = Some ''status'' \<or> primary = Some ''sessions'' \<or>
     (primary = Some ''agents'' \<and> secondary = Some ''list'') \<or>
     (primary = Some ''memory'' \<and> secondary = Some ''status'')"
  unfolding isFastPath_destructure2 assms by (cases primary) simp_all

lemma tryRouteCli_true_fast:
  assumes "snd (tryRouteCli H X env argv) = Inr True"
  shows "isFastPath (getCommandPath' H argv 2)"
proof -
  obtain primary secondary
    where d: "destructure2 (getCommandPath' H argv 2) = (primary, secondary)"
    by (cases "destructure2 (getCommandPath' H argv 2)")
  show ?thesis
  proof (rule ccontr)
    assume "\<not> isFastPath (getCommandPath' H argv 2)"
    then have "tryRouteCli H X env argv = ret False"
      unfolding isFastPath_branches [OF d] tryRouteCli_branches [OF d] by auto
    with assms show False by simp
  qed
qed

lemma tryRouteCli_not_fast:
  assumes "isTruthyEnvValue' H env \<or> hasHelpOrVersion' H argv \<or>
    getCommandPath' H argv 2 = [] \<or> \<not> isFastPath (getCommandPath' H argv 2)"
  shows "tryRouteCli H X env argv = ret False"
proof -
  obtain primary secondary
    where d: "destructure2 (getCommandPath' H argv 2) = (primary, secondary)"
    by (cases "destructure2 (getCommandPath' H argv 2)")
  have e: "getCommandPath' H argv 2 = [] \<Longrightarrow> primary = None"
    using d by simp
  consider "isTruthyEnvValue' H env" | "hasHelpOrVersion' H argv" | "primary = None"
    | "\<not> isFastPath (getCommandPath' H argv 2)"
    using assms e by blast
  then show ?thesis
  proof cases
    case 1 then show ?thesis by (simp add: tryRouteCli_def)
  next
    case 2 then show ?thesis by (simp add: tryRouteCli_def)
  next
    case 3 then show ?thesis unfolding tryRouteCli_branches [OF d] by simp
  next
    case 4
    then have p: "primary \<noteq> Some ''health''" "primary \<noteq> Some ''status''"
        "primary \<noteq> Some ''sessions''"
      and a: "(primary = Some ''agents'' \<and> secondary = Some ''list'') = False"
      and m: "(primary = Some ''memory'' \<and> secondary = Some ''status'') = False"
      unfolding isFastPath_branches [OF d] by simp_all
    show ?thesis unfolding tryRouteCli_branches [OF d] a m using p by simp
  qed
qed


lemmas spec_eval =
  specHelpers_def hasHelpOrVersion_def getCommandPath_def FLAG_TERMINATOR_def
  isFlagShaped_def startsWith_def isHelpOrVersionToken_def isTruthyEnvValue_def truthy_def

text \<open>
  Claim C1. \<^verbatim>\<open>tryRouteCli\<close> returns true only when the command path read at offset 2
  begins with one of the five fast paths. It returns false, having done nothing, when the
  escape-hatch variable is truthy, when a help or version token is present, when the command
  path is empty, or when the path matches no fast path. This holds for whatever the imported
  helpers compute. With the helpers as the specification describes them, the arguments
  \<^verbatim>\<open>node cb agents list --json\<close> make it return true after calling the agents-list handler
  with \<^verbatim>\<open>{json: true, bindings: false}\<close> (the escape hatch not being set), and the
  arguments \<^verbatim>\<open>node cb frobnicate\<close> and \<^verbatim>\<open>node cb --help\<close> make it return false.
\<close>

theorem tryRouteCli_fast_paths:
  "(snd (tryRouteCli H X env argv) = Inr True \<longrightarrow> isFastPath (getCommandPath' H argv 2)) \<and>
   (isTruthyEnvValue' H env \<or> hasHelpOrVersion' H argv \<or> getCommandPath' H argv 2 = [] \<or>
    \<not> isFastPath (getCommandPath' H argv 2) \<longrightarrow>
      tryRouteCli H X env argv = ([], Inr False)) \<and>
   (\<not> isTruthyEnvValue env \<longrightarrow>
      tryRouteCli specHelpers X env [''node'', ''cb'', ''agents'', ''list'', ''--json''] =
        ([EmitCliBanner, EnsureConfigReady True,
          AgentsListCommand \<lparr>agents_json = True, agents_bindings = False\<rparr>], Inr True)) \<and>
   tryRouteCli specHelpers X env [''node'', ''cb'', ''frobnicate''] = ([], Inr False) \<and>
   tryRouteCli specHelpers X env [''node'', ''cb'', ''--help''] = ([], Inr False)"
proof (intro conjI impI)
  assume "snd (tryRouteCli H X env argv) = Inr True"
  then show "isFastPath (getCommandPath' H argv 2)"
    by (rule tryRouteCli_true_fast)
next
  assume "isTruthyEnvValue' H env \<or> hasHelpOrVersion' H argv \<or> getCommandPath' H argv 2 = [] \<or>
    \<not> isFastPath (getCommandPath' H argv 2)"
  then have "tryRouteCli H X env argv = ret False"
    by (rule tryRouteCli_not_fast)
  then show "tryRouteCli H X env argv = ([], Inr False)"
    by (simp only: ret_def)
next
  assume "\<not> isTruthyEnvValue env"
  then show "tryRouteCli specHelpers X env [''node'', ''cb'', ''agents'', ''list'', ''--json''] =
        ([EmitCliBanner, EnsureConfigReady True,
          AgentsListCommand \<lparr>agents_json = True, agents_bindings = False\<rparr>], Inr True)"
    by (simp add: tryRouteCli_def routeAgentsList_def specHelpers_def hasHelpOrVersion_def
          getCommandPath_def FLAG_TERMINATOR_def isFlagShaped_def startsWith_def
          isHelpOrVersionToken_def)
next
  show "tryRouteCli specHelpers X env [''node'', ''cb'', ''frobnicate''] = ([], Inr False)"
    by (simp add: tryRouteCli_def ret_def specHelpers_def hasHelpOrVersion_def
          getCommandPath_def FLAG_TERMINATOR_def isFlagShaped_def startsWith_def
          isHelpOrVersionToken_def)
next
  show "tryRouteCli specHelpers X env [''node'', ''cb'', ''--help''] = ([], Inr False)"
    by (simp add: tryRouteCli_def ret_def specHelpers_def hasHelpOrVersion_def
          FLAG_TERMINATOR_def isHelpOrVersionToken_def)
qed

theorem tryRouteCli_fast_paths_witness:
  "snd (tryRouteCli specHelpers sampleExternals None [''node'', ''cb'', ''sessions'']) = Inr True \<and>
   isFastPath (getCommandPath' specHelpers [''node'', ''cb'', ''sessions''] 2) \<and>
   \<not> isFastPath (getCommandPath' specHelpers [''node'', ''cb'', ''agents'', ''add''] 2) \<and>
   tryRouteCli specHelpers sampleExternals None [''node'', ''cb'', ''agents'', ''add''] =
     ([], Inr False) \<and>
   \<not> isTruthyEnvValue None \<and>
   tryRouteCli specHelpers sampleExternals None [''node'', ''cb'', ''agents'', ''list'', ''--json''] =
     ([EmitCliBanner, EnsureConfigReady True,
       AgentsListCommand \<lparr>agents_json = True, agents_bindings = False\<rparr>], Inr True)"
proof -
  have ran: "snd (tryRouteCli specHelpers sampleExternals None [''node'', ''cb'', ''sessions''])
      = Inr True"
    by (simp add: tryRouteCli_def routeSessions_def spec_eval)
  have other: "\<not> isFastPath (getCommandPath' specHelpers [''node'', ''cb'', ''agents'', ''add''] 2)"
    by (simp add: spec_eval)
  have unset: "\<not> isTruthyEnvValue None"
    by (simp add: isTruthyEnvValue_def)
  have fast: "isFastPath (getCommandPath' specHelpers [''node'', ''cb'', ''sessions''] 2)"
    using tryRouteCli_fast_paths [THEN conjunct1, rule_format, OF ran] .
  have none: "tryRouteCli specHelpers sampleExternals None [''node'', ''cb'', ''agents'', ''add'']
      = ([], Inr False)"
    by (rule tryRouteCli_fast_paths [THEN conjunct2, THEN conjunct1, rule_format])
       (intro disjI2, rule other)
  have listed: "tryRouteCli specHelpers sampleExternals None
      [''node'', ''cb'', ''agents'', ''list'', ''--json''] =
     ([EmitCliBanner, EnsureConfigReady True,
       AgentsListCommand \<lparr>agents_json = True, agents_bindings = False\<rparr>], Inr True)"
    by (rule tryRouteCli_fast_paths [THEN conjunct2, THEN conjunct2, THEN conjunct1, rule_format,
          OF unset])
  show ?thesis
    by (intro conjI ran fast other none unset listed)
qed

lemma readinessChecks_append:
  "readinessChecks (evs @ evs') = readinessChecks evs @ readinessChecks evs'"
  by (induction evs rule: readinessChecks.induct) simp_all

lemma managersRequested_append:
  "managersRequested (evs @ evs') = managersRequested evs @ managersRequested evs'"
  by (induction evs rule: managersRequested.induct) simp_all

lemma readinessChecks_none:
  "\<forall>e \<in> set evs. \<not> isReadinessCheck e \<Longrightarrow> readinessChecks evs = []"
proof (induction evs)
  case Nil
  show ?case by simp
next
  case (Cons e evs)
  then show ?case by (cases e) simp_all
qed

lemma managersRequested_none:
  "\<forall>e \<in> set evs. \<not> isManagerRequest e \<Longrightarrow> managersRequested evs = []"
proof (induction evs)
  case Nil
  show ?case by simp
next
  case (Cons e evs)
  then show ?case by (cases e) simp_all
qed

lemma events_andThen:
  assumes "\<forall>e \<in> set (fst m). P e" and "\<And>x. \<forall>e \<in> set (fst (f x)). P e"
  shows "\<forall>e \<in> set (fst (andThen m f)). P e"
  using assms by (auto simp: fst_andThen split: sum.splits)

lemma events_tryCatch:
  assumes "\<forall>e \<in> set (fst m). P e" and "\<And>err. \<forall>e \<in> set (fst (h err)). P e"
  shows "\<forall>e \<in> set (fst (tryCatch m h)). P e"
  using assms by (auto simp: fst_tryCatch split: sum.splits)

lemma events_forEach:
  assumes "\<And>x. \<forall>e \<in> set (fst (body x)). P e"
  shows "\<forall>e \<in> set (fst (forEach xs body)). P e"
proof (induction xs)
  case Nil
  show ?case by simp
next
  case (Cons x xs)
  show ?case
    unfolding forEach.simps
    by (intro events_andThen assms Cons) simp
qed

lemma plain_statusRun: "\<forall>e \<in> set (fst (statusRun opts a m)). plainEvent e"
  by (auto simp: statusRun_def plainEvent_def fst_andThen fst_tryCatch snd_andThen snd_tryCatch
           split: sum.splits if_splits prod.splits)

lemma plain_indexRun: "\<forall>e \<in> set (fst (indexRun opts a m)). plainEvent e"
  by (auto simp: indexRun_def plainEvent_def fst_andThen fst_tryCatch snd_andThen snd_tryCatch
           split: sum.splits if_splits prod.splits)

lemma plain_searchRun: "\<forall>e \<in> set (fst (searchRun opts q a m)). plainEvent e"
  by (auto simp: searchRun_def plainEvent_def fst_andThen fst_tryCatch snd_andThen snd_tryCatch
           split: sum.splits if_splits prod.splits option.splits)

lemma plain_close: "\<forall>e \<in> set (fst (tryCatch (closeManager a m) onCloseError)). plainEvent e"
  by (auto simp: closeManager_def onCloseError_def plainEvent_def fst_tryCatch split: sum.splits)

lemma plain_onMissing: "\<forall>e \<in> set (fst (onMissing err)). plainEvent e"
  by (simp add: onMissing_def plainEvent_def)

lemma plain_statusReport: "\<forall>e \<in> set (fst (statusReport opts r)). plainEvent e"
  by (simp add: statusReport_def plainEvent_def)

lemma withManager_events:
  assumes "\<And>m. \<forall>e \<in> set (fst (run m)). plainEvent e"
  shows "\<exists>evs. fst (withManager (getManager X cfg a) onMissing onCloseError (closeManager a) run)
           = GetMemorySearchManager a # evs \<and> (\<forall>e \<in> set evs. plainEvent e)"
  using assms plain_close [of a] plain_onMissing
  by (auto simp: fst_withManager split: option.splits)

lemma plain_readinessChecks: "\<forall>e \<in> set evs. plainEvent e \<Longrightarrow> readinessChecks evs = []"
  by (rule readinessChecks_none) (simp add: plainEvent_def)

lemma plain_managersRequested: "\<forall>e \<in> set evs. plainEvent e \<Longrightarrow> managersRequested evs = []"
  by (rule managersRequested_none) (simp add: plainEvent_def)

lemma withManager_readinessChecks:
  assumes "\<And>m. \<forall>e \<in> set (fst (run m)). plainEvent e"
  shows "readinessChecks
           (fst (withManager (getManager X cfg a) onMissing onCloseError (closeManager a) run)) = []"
  using withManager_events [of run X cfg a, OF assms] by (auto simp: plain_readinessChecks)

lemma withManager_managersRequested:
  assumes "\<And>m. \<forall>e \<in> set (fst (run m)). plainEvent e"
  shows "managersRequested
           (fst (withManager (getManager X cfg a) onMissing onCloseError (closeManager a) run)) = [a]"
  using withManager_events [of run X cfg a, OF assms] by (auto simp: plain_managersRequested)

lemma forEach_readinessChecks:
  assumes "\<And>x. readinessChecks (fst (body x)) = []"
  shows "readinessChecks (fst (forEach xs body)) = []"
  by (induction xs)
     (simp_all add: fst_andThen readinessChecks_append assms split: sum.splits)

lemma forEach_managersRequested:
  assumes "\<And>x. managersRequested (fst (body x)) = [x]"
  shows "managersRequested (fst (forEach xs body)) =
           (case snd (forEach xs body) of
              Inr _ \<Rightarrow> xs
            | Inl _ \<Rightarrow> take (length (managersRequested (fst (forEach xs body)))) xs)"
  by (induction xs)
     (simp_all add: fst_andThen snd_andThen managersRequested_append assms split: sum.splits)

lemma runMemoryStatus_readinessChecks:
  "readinessChecks (fst (runMemoryStatus X opts)) = [False]"
proof -
  let ?loop = "forEach (resolveAgentIds X (loadConfig X) (agent opts)) (\<lambda>agentId.
               withManager (getManager X (loadConfig X) agentId) onMissing onCloseError
                 (closeManager agentId) (statusRun opts agentId))"
  have loop: "readinessChecks (fst ?loop) = []"
    by (intro forEach_readinessChecks withManager_readinessChecks plain_statusRun)
  have report: "readinessChecks (fst (forEach rs (statusReport opts))) = []" for rs
    by (intro forEach_readinessChecks plain_readinessChecks plain_statusReport)
  show ?thesis
    by (simp add: runMemoryStatus_def Let_def fst_andThen readinessChecks_append loop report
          split: sum.splits)
qed

lemma routeHealth_eq:
  "routeHealth H argv =
     (if getFlagValue' H argv ''--timeout'' = Null
      then ([EmitCliBanner, EnsureConfigReady False, EnsurePluginRegistryLoaded], Inr False)
      else ([EmitCliBanner, EnsureConfigReady False, EnsurePluginRegistryLoaded,
             SetVerbose (hasFlag' H argv ''--verbose'' \<or> hasFlag' H argv ''--debug''),
             HealthCommand
               \<lparr>health_json = hasFlag' H argv ''--json'',
                health_timeoutMs =
                  parsePositiveIntOrUndefined' H (definedValue (getFlagValue' H argv ''--timeout'')),
                health_verbose = hasFlag' H argv ''--verbose'' \<or> hasFlag' H argv ''--debug''\<rparr>],
            Inr True))"
  by (simp add: routeHealth_def Let_def)

lemma routeStatus_eq:
  "routeStatus H argv =
     (if getFlagValue' H argv ''--timeout'' = Null
      then ([EmitCliBanner, EnsureConfigReady False, EnsurePluginRegistryLoaded], Inr False)
      else ([EmitCliBanner, EnsureConfigReady False, EnsurePluginRegistryLoaded,
             SetVerbose (hasFlag' H argv ''--verbose'' \<or> hasFlag' H argv ''--debug''),
             StatusCommand
               \<lparr>status_json = hasFlag' H argv ''--json'',
                status_deep = hasFlag' H argv ''--deep'',
                status_all = hasFlag' H argv ''--all'',
                status_usage = hasFlag' H argv ''--usage'',
                status_timeoutMs =
                  parsePositiveIntOrUndefined' H (definedValue (getFlagValue' H argv ''--timeout'')),
                status_verbose = hasFlag' H argv ''--verbose'' \<or> hasFlag' H argv ''--debug''\<rparr>],
            Inr True))"
  by (simp add: routeStatus_def Let_def)

lemma routeSessions_eq:
  "routeSessions H argv =
     (if getFlagValue' H argv ''--store'' = Null \<or> getFlagValue' H argv ''--active'' = Null
      then ([EmitCliBanner, EnsureConfigReady False], Inr False)
      else ([EmitCliBanner, EnsureConfigReady False,
             SetVerbose (hasFlag' H argv ''--verbose''),
             SessionsCommand
               \<lparr>sessions_json = hasFlag' H argv ''--json'',
                sessions_store = definedValue (getFlagValue' H argv ''--store''),
                sessions_active = definedValue (getFlagValue' H argv ''--active'')\<rparr>],
            Inr True))"
  by (simp add: routeSessions_def Let_def)

lemma routeAgentsList_eq:
  "routeAgentsList H argv =
     ([EmitCliBanner, EnsureConfigReady True,
       AgentsListCommand \<lparr>agents_json = hasFlag' H argv ''--json'',
                          agents_bindings = hasFlag' H argv ''--bindings''\<rparr>],
      Inr True)"
  by (simp add: routeAgentsList_def Let_def)

lemma routeMemoryStatus_null:
  "getFlagValue' H argv ''--agent'' = Null \<Longrightarrow>
   routeMemoryStatus H X argv = ([EmitCliBanner], Inr False)"
  by (simp add: routeMemoryStatus_def Let_def)

lemma routeMemoryStatus_run:
  "getFlagValue' H argv ''--agent'' \<noteq> Null \<Longrightarrow>
   \<exists>opts. fst (routeMemoryStatus H X argv) = EmitCliBanner # fst (runMemoryStatus X opts) \<and>
          snd (routeMemoryStatus H X argv) = map_sum id (\<lambda>_. True) (snd (runMemoryStatus X opts))"
  by (auto simp add: routeMemoryStatus_def Let_def snd_andThen fst_andThen split: sum.splits)

text \<open>Branch selection in terms of the primary and secondary command.\<close>

lemma tryRouteCli_route:
  "tryRouteCli H X env argv =
     (if isTruthyEnvValue' H env then ret False
      else if hasHelpOrVersion' H argv then ret False
      else if primaryOf H argv = None \<or> primaryOf H argv = Some '''' then ret False
      else if primaryOf H argv = Some ''health'' then routeHealth H argv
      else if primaryOf H argv = Some ''status'' then routeStatus H argv
      else if primaryOf H argv = Some ''sessions'' then routeSessions H argv
      else if primaryOf H argv = Some ''agents'' \<and> secondaryOf H argv = Some ''list''
        then routeAgentsList H argv
      else if primaryOf H argv = Some ''memory'' \<and> secondaryOf H argv = Some ''status''
        then routeMemoryStatus H X argv
      else ret False)"
  unfolding primaryOf_def secondaryOf_def
  by (rule tryRouteCli_branches) simp

text \<open>
  Claim C2. On a fast path, a value-flag lookup that returns \<^verbatim>\<open>null\<close> makes \<^verbatim>\<open>tryRouteCli\<close>
  return false without invoking the handler: \<^verbatim>\<open>--timeout\<close> on \<^verbatim>\<open>health\<close> and \<^verbatim>\<open>status\<close>,
  \<^verbatim>\<open>--store\<close> or \<^verbatim>\<open>--active\<close> on \<^verbatim>\<open>sessions\<close>, \<^verbatim>\<open>--agent\<close> on \<^verbatim>\<open>memory status\<close>. All
  that such a run does is emit the banner, check configuration readiness without migration
  and load the plugin registry. This holds for whatever the imported helpers compute. With
  the helpers as the specification describes them, the arguments
  \<^verbatim>\<open>node cb status --timeout\<close> make it return false.
\<close>

theorem tryRouteCli_null_value_aborts:
  "(((primaryOf H argv = Some ''health'' \<or> primaryOf H argv = Some ''status'') \<and>
       getFlagValue' H argv ''--timeout'' = Null) \<or>
    (primaryOf H argv = Some ''sessions'' \<and>
       (getFlagValue' H argv ''--store'' = Null \<or> getFlagValue' H argv ''--active'' = Null)) \<or>
    (primaryOf H argv = Some ''memory'' \<and> secondaryOf H argv = Some ''status'' \<and>
       getFlagValue' H argv ''--agent'' = Null)
    \<longrightarrow>
      snd (tryRouteCli H X env argv) = Inr False \<and>
      set (fst (tryRouteCli H X env argv))
        \<subseteq> {EmitCliBanner, EnsureConfigReady False, EnsurePluginRegistryLoaded}) \<and>
   snd (tryRouteCli specHelpers X env [''node'', ''cb'', ''status'', ''--timeout'']) = Inr False \<and>
   (\<not> isTruthyEnvValue env \<longrightarrow>
      tryRouteCli specHelpers X env [''node'', ''cb'', ''status'', ''--timeout''] =
        ([EmitCliBanner, EnsureConfigReady False, EnsurePluginRegistryLoaded], Inr False))"
proof (intro conjI impI)
  assume null:
    "((primaryOf H argv = Some ''health'' \<or> primaryOf H argv = Some ''status'') \<and>
       getFlagValue' H argv ''--timeout'' = Null) \<or>
    (primaryOf H argv = Some ''sessions'' \<and>
       (getFlagValue' H argv ''--store'' = Null \<or> getFlagValue' H argv ''--active'' = Null)) \<or>
    (primaryOf H argv = Some ''memory'' \<and> secondaryOf H argv = Some ''status'' \<and>
       getFlagValue' H argv ''--agent'' = Null)"
  have "snd (tryRouteCli H X env argv) = Inr False \<and>
      set (fst (tryRouteCli H X env argv))
        \<subseteq> {EmitCliBanner, EnsureConfigReady False, EnsurePluginRegistryLoaded}"
  proof (cases "isTruthyEnvValue' H env \<or> hasHelpOrVersion' H argv")
    case True
    then have "tryRouteCli H X env argv = ret False"
      unfolding tryRouteCli_def by auto
    then show ?thesis by simp
  next
    case False
    from null show ?thesis
    proof (elim disjE conjE)
      assume "primaryOf H argv = Some ''health''" "getFlagValue' H argv ''--timeout'' = Null"
      with False show ?thesis by (simp add: tryRouteCli_route routeHealth_eq)
    next
      assume "primaryOf H argv = Some ''status''" "getFlagValue' H argv ''--timeout'' = Null"
      with False show ?thesis by (simp add: tryRouteCli_route routeStatus_eq)
    next
      assume "primaryOf H argv = Some ''sessions''" "getFlagValue' H argv ''--store'' = Null"
      with False show ?thesis by (simp add: tryRouteCli_route routeSessions_eq)
    next
      assume "primaryOf H argv = Some ''sessions''" "getFlagValue' H argv ''--active'' = Null"
      with False show ?thesis by (simp add: tryRouteCli_route routeSessions_eq)
    next
      assume "primaryOf H argv = Some ''memory''" "secondaryOf H argv = Some ''status''"
        "getFlagValue' H argv ''--agent'' = Null"
      with False show ?thesis by (simp add: tryRouteCli_route routeMemoryStatus_null)
    qed
  qed
  then show "snd (tryRouteCli H X env argv) = Inr False"
    and "set (fst (tryRouteCli H X env argv))
        \<subseteq> {EmitCliBanner, EnsureConfigReady False, EnsurePluginRegistryLoaded}"
    by simp_all
next
  show "snd (tryRouteCli specHelpers X env [''node'', ''cb'', ''status'', ''--timeout'']) = Inr False"
    by (simp add: tryRouteCli_def routeStatus_eq ret_def specHelpers_def hasHelpOrVersion_def
          getCommandPath_def FLAG_TERMINATOR_def isFlagShaped_def startsWith_def
          isHelpOrVersionToken_def)
next
  assume "\<not> isTruthyEnvValue env"
  then show "tryRouteCli specHelpers X env [''node'', ''cb'', ''status'', ''--timeout''] =
        ([EmitCliBanner, EnsureConfigReady False, EnsurePluginRegistryLoaded], Inr False)"
    by (simp add: tryRouteCli_def routeStatus_eq specHelpers_def hasHelpOrVersion_def
          getCommandPath_def FLAG_TERMINATOR_def isFlagShaped_def startsWith_def
          isHelpOrVersionToken_def)
qed

theorem tryRouteCli_null_value_aborts_witness:
  "primaryOf specHelpers [''node'', ''cb'', ''sessions'', ''--store'', ''--json''] = Some ''sessions'' \<and>
   getFlagValue' specHelpers [''node'', ''cb'', ''sessions'', ''--store'', ''--json''] ''--store'' = Null \<and>
   snd (tryRouteCli specHelpers sampleExternals None
          [''node'', ''cb'', ''sessions'', ''--store'', ''--json'']) = Inr False \<and>
   set (fst (tryRouteCli specHelpers sampleExternals None
          [''node'', ''cb'', ''sessions'', ''--store'', ''--json'']))
     \<subseteq> {EmitCliBanner, EnsureConfigReady False, EnsurePluginRegistryLoaded} \<and>
   \<not> isTruthyEnvValue None \<and>
   tryRouteCli specHelpers sampleExternals None [''node'', ''cb'', ''status'', ''--timeout''] =
     ([EmitCliBanner, EnsureConfigReady False, EnsurePluginRegistryLoaded], Inr False)"
proof -
  have p: "primaryOf specHelpers [''node'', ''cb'', ''sessions'', ''--store'', ''--json'']
      = Some ''sessions''"
    by (simp add: primaryOf_def spec_eval)
  have n: "getFlagValue' specHelpers [''node'', ''cb'', ''sessions'', ''--store'', ''--json'']
      ''--store'' = Null"
    by (simp add: spec_eval)
  have unset: "\<not> isTruthyEnvValue None"
    by (simp add: isTruthyEnvValue_def)
  have bare: "tryRouteCli specHelpers sampleExternals None
      [''node'', ''cb'', ''status'', ''--timeout''] =
     ([EmitCliBanner, EnsureConfigReady False, EnsurePluginRegistryLoaded], Inr False)"
    by (rule tryRouteCli_null_value_aborts [THEN conjunct2, THEN conjunct2, rule_format,
          OF unset])
  show ?thesis
    using tryRouteCli_null_value_aborts [THEN conjunct1, rule_format,
        of specHelpers "[''node'', ''cb'', ''sessions'', ''--store'', ''--json'']"
           sampleExternals None] p n unset bare
    by simp
qed

lemma parsePositive: "parsePositiveIntOrUndefined v = Some n \<Longrightarrow> 0 < n"
  by (auto simp: parsePositiveIntOrUndefined_def split: option.splits if_splits)

lemma tryRouteCli_readiness:
  "(readinessChecks (fst (tryRouteCli H X env argv)) = [] \<or>
    readinessChecks (fst (tryRouteCli H X env argv)) =
      [primaryOf H argv = Some ''agents'' \<and> secondaryOf H argv = Some ''list'']) \<and>
   (snd (tryRouteCli H X env argv) = Inr True \<longrightarrow>
    readinessChecks (fst (tryRouteCli H X env argv)) =
      [primaryOf H argv = Some ''agents'' \<and> secondaryOf H argv = Some ''list''])"
proof (cases "isTruthyEnvValue' H env \<or> hasHelpOrVersion' H argv \<or>
       primaryOf H argv = None \<or> primaryOf H argv = Some []")
  case True
  then have "tryRouteCli H X env argv = ret False"
    unfolding tryRouteCli_route by auto
  then show ?thesis by simp
next
  case on: False
  show ?thesis
  proof (cases "primaryOf H argv = Some ''health''")
    case True
    with on show ?thesis by (simp add: tryRouteCli_route routeHealth_eq)
  next
    case nh: False
    show ?thesis
    proof (cases "primaryOf H argv = Some ''status''")
      case True
      with on show ?thesis by (simp add: tryRouteCli_route routeStatus_eq)
    next
      case nst: False
      show ?thesis
      proof (cases "primaryOf H argv = Some ''sessions''")
        case True
        with on show ?thesis by (simp add: tryRouteCli_route routeSessions_eq)
      next
        case nse: False
        show ?thesis
        proof (cases "primaryOf H argv = Some ''agents'' \<and> secondaryOf H argv = Some ''list''")
          case True
          with on show ?thesis by (simp add: tryRouteCli_route routeAgentsList_eq)
        next
          case na: False
          show ?thesis
          proof (cases "primaryOf H argv = Some ''memory'' \<and> secondaryOf H argv = Some ''status''")
            case True
            with on have r: "tryRouteCli H X env argv = routeMemoryStatus H X argv"
              by (simp add: tryRouteCli_route)
            show ?thesis
            proof (cases "getFlagValue' H argv ''--agent'' = Null")
              case True
              then show ?thesis by (simp add: r routeMemoryStatus_null)
            next
              case False
              from routeMemoryStatus_run [OF False, of X] obtain opts
                where "fst (routeMemoryStatus H X argv) =
                         EmitCliBanner # fst (runMemoryStatus X opts)"
                by blast
              then show ?thesis
                using True by (simp add: r runMemoryStatus_readinessChecks)
            qed
          next
            case False
            with on nh nst nse na have "tryRouteCli H X env argv = ret False"
              unfolding tryRouteCli_route by auto
            then show ?thesis by simp
          qed
        qed
      qed
    qed
  qed
qed

lemma runMemoryStatus_starts:
  "take 1 (fst (runMemoryStatus X opts)) = [EnsureConfigReady False]"
  by (simp add: runMemoryStatus_def)

lemma routeMemoryStatus_starts:
  assumes "getFlagValue' H argv ''--agent'' \<noteq> Null"
  shows "take 2 (fst (routeMemoryStatus H X argv)) = [EmitCliBanner, EnsureConfigReady False]"
    and "readinessChecks (fst (routeMemoryStatus H X argv)) = [False]"
proof -
  from routeMemoryStatus_run [OF assms, of X] obtain opts
    where e: "fst (routeMemoryStatus H X argv) = EmitCliBanner # fst (runMemoryStatus X opts)"
    by blast
  show "take 2 (fst (routeMemoryStatus H X argv)) = [EmitCliBanner, EnsureConfigReady False]"
    using runMemoryStatus_starts [of X opts] by (simp add: e numeral_2_eq_2)
  show "readinessChecks (fst (routeMemoryStatus H X argv)) = [False]"
    by (simp add: e runMemoryStatus_readinessChecks)
qed

text \<open>
  Claim C6. Every fast path of \<^verbatim>\<open>tryRouteCli\<close> checks configuration readiness as its first
  action after the banner, whether the run then invokes the handler or aborts on a flag, and
  checks it exactly once: with state migration disabled on the \<^verbatim>\<open>health\<close>, \<^verbatim>\<open>status\<close> and
  \<^verbatim>\<open>sessions\<close> paths, enabled on the \<^verbatim>\<open>agents list\<close> path, and disabled on the
  \<^verbatim>\<open>memory status\<close> path, where the check is the first action of \<^verbatim>\<open>runMemoryStatus\<close> and so
  is made once the lookup of \<^verbatim>\<open>--agent\<close> has not returned \<^verbatim>\<open>null\<close>. So a run that handles the
  invocation has made exactly one check, with the flag of its path, and no run makes a check
  with another flag than the one of its path.
\<close>

theorem tryRouteCli_migration_policy:
  "(\<not> isTruthyEnvValue' H env \<and> \<not> hasHelpOrVersion' H argv \<longrightarrow>
      (primaryOf H argv = Some ''health'' \<or> primaryOf H argv = Some ''status'' \<or>
       primaryOf H argv = Some ''sessions'' \<longrightarrow>
         take 2 (fst (tryRouteCli H X env argv)) = [EmitCliBanner, EnsureConfigReady False] \<and>
         readinessChecks (fst (tryRouteCli H X env argv)) = [False]) \<and>
      (primaryOf H argv = Some ''agents'' \<and> secondaryOf H argv = Some ''list'' \<longrightarrow>
         take 2 (fst (tryRouteCli H X env argv)) = [EmitCliBanner, EnsureConfigReady True] \<and>
         readinessChecks (fst (tryRouteCli H X env argv)) = [True]) \<and>
      (primaryOf H argv = Some ''memory'' \<and> secondaryOf H argv = Some ''status'' \<and>
       getFlagValue' H argv ''--agent'' \<noteq> Null \<longrightarrow>
         take 2 (fst (tryRouteCli H X env argv)) = [EmitCliBanner, EnsureConfigReady False] \<and>
         readinessChecks (fst (tryRouteCli H X env argv)) = [False])) \<and>
   (snd (tryRouteCli H X env argv) = Inr True \<longrightarrow>
      readinessChecks (fst (tryRouteCli H X env argv)) =
        [primaryOf H argv = Some ''agents'' \<and> secondaryOf H argv = Some ''list'']) \<and>
   (\<forall>migrateState \<in> set (readinessChecks (fst (tryRouteCli H X env argv))).
      migrateState = (primaryOf H argv = Some ''agents'' \<and> secondaryOf H argv = Some ''list'')) \<and>
   take 1 (fst (runMemoryStatus X opts)) = [EnsureConfigReady False] \<and>
   readinessChecks (fst (runMemoryStatus X opts)) = [False]"
proof (intro conjI impI)
  assume on: "\<not> isTruthyEnvValue' H env \<and> \<not> hasHelpOrVersion' H argv"
  {
    assume p: "primaryOf H argv = Some ''health'' \<or> primaryOf H argv = Some ''status'' \<or>
       primaryOf H argv = Some ''sessions''"
    from p on show "take 2 (fst (tryRouteCli H X env argv)) = [EmitCliBanner, EnsureConfigReady False]"
      by (elim disjE)
         (simp_all add: tryRouteCli_route routeHealth_eq routeStatus_eq routeSessions_eq)
    from p on show "readinessChecks (fst (tryRouteCli H X env argv)) = [False]"
      by (elim disjE)
         (simp_all add: tryRouteCli_route routeHealth_eq routeStatus_eq routeSessions_eq)
  }
  {
    assume p: "primaryOf H argv = Some ''agents'' \<and> secondaryOf H argv = Some ''list''"
    with on show "take 2 (fst (tryRouteCli H X env argv)) = [EmitCliBanner, EnsureConfigReady True]"
      and "readinessChecks (fst (tryRouteCli H X env argv)) = [True]"
      by (simp_all add: tryRouteCli_route routeAgentsList_eq)
  }
  {
    assume p: "primaryOf H argv = Some ''memory'' \<and> secondaryOf H argv = Some ''status'' \<and>
       getFlagValue' H argv ''--agent'' \<noteq> Null"
    with on have r: "tryRouteCli H X env argv = routeMemoryStatus H X argv"
      by (simp add: tryRouteCli_route)
    from p have a: "getFlagValue' H argv ''--agent'' \<noteq> Null" by simp
    show "take 2 (fst (tryRouteCli H X env argv)) = [EmitCliBanner, EnsureConfigReady False]"
      and "readinessChecks (fst (tryRouteCli H X env argv)) = [False]"
      unfolding r by (rule routeMemoryStatus_starts [OF a])+
  }
next
  {
    assume "snd (tryRouteCli H X env argv) = Inr True"
    then show "readinessChecks (fst (tryRouteCli H X env argv)) =
        [primaryOf H argv = Some ''agents'' \<and> secondaryOf H argv = Some ''list'']"
      by (rule tryRouteCli_readiness [THEN conjunct2, rule_format])
  }
  have "readinessChecks (fst (tryRouteCli H X env argv)) = [] \<or>
    readinessChecks (fst (tryRouteCli H X env argv)) =
      [primaryOf H argv = Some ''agents'' \<and> secondaryOf H argv = Some ''list'']"
    using tryRouteCli_readiness [of H X env argv] by (rule conjunct1)
  then show "\<forall>migrateState \<in> set (readinessChecks (fst (tryRouteCli H X env argv))).
      migrateState = (primaryOf H argv = Some ''agents'' \<and> secondaryOf H argv = Some ''list'')"
    by (elim disjE) simp_all
  show "take 1 (fst (runMemoryStatus X opts)) = [EnsureConfigReady False]"
    by (rule runMemoryStatus_starts)
  show "readinessChecks (fst (runMemoryStatus X opts)) = [False]"
    by (rule runMemoryStatus_readinessChecks)
qed

theorem tryRouteCli_migration_policy_witness:
  "take 2 (fst (tryRouteCli specHelpers sampleExternals None [''node'', ''cb'', ''sessions'']))
     = [EmitCliBanner, EnsureConfigReady False] \<and>
   readinessChecks (fst (tryRouteCli specHelpers sampleExternals None
     [''node'', ''cb'', ''sessions''])) = [False] \<and>
   readinessChecks (fst (tryRouteCli specHelpers sampleExternals None
     [''node'', ''cb'', ''health'', ''--json''])) = [False] \<and>
   snd (tryRouteCli specHelpers sampleExternals None [''node'', ''cb'', ''status'', ''--timeout''])
     = Inr False \<and>
   readinessChecks (fst (tryRouteCli specHelpers sampleExternals None
     [''node'', ''cb'', ''status'', ''--timeout''])) = [False] \<and>
   True \<notin> set (readinessChecks (fst (tryRouteCli specHelpers sampleExternals None
     [''node'', ''cb'', ''status'', ''--timeout'']))) \<and>
   take 2 (fst (tryRouteCli specHelpers sampleExternals None [''node'', ''cb'', ''agents'', ''list'']))
     = [EmitCliBanner, EnsureConfigReady True] \<and>
   readinessChecks (fst (tryRouteCli specHelpers sampleExternals None
     [''node'', ''cb'', ''agents'', ''list''])) = [True] \<and>
   snd (tryRouteCli specHelpers sampleExternals None
     [''node'', ''cb'', ''memory'', ''status'', ''--agent'', ''work'']) = Inr True \<and>
   take 2 (fst (tryRouteCli specHelpers sampleExternals None
     [''node'', ''cb'', ''memory'', ''status'', ''--agent'', ''work'']))
     = [EmitCliBanner, EnsureConfigReady False] \<and>
   readinessChecks (fst (tryRouteCli specHelpers sampleExternals None
     [''node'', ''cb'', ''memory'', ''status'', ''--agent'', ''work''])) = [False]"
proof -
  let ?run = "tryRouteCli specHelpers sampleExternals None"
  have on: "\<not> isTruthyEnvValue' specHelpers None \<and> \<not> hasHelpOrVersion' specHelpers argv"
    if "\<not> hasHelpOrVersion argv" for argv
    using that by (simp add: specHelpers_def isTruthyEnvValue_def)
  have o1: "\<not> isTruthyEnvValue' specHelpers None \<and>
      \<not> hasHelpOrVersion' specHelpers [''node'', ''cb'', ''sessions'']"
    by (rule on) (simp add: spec_eval)
  have o2: "\<not> isTruthyEnvValue' specHelpers None \<and>
      \<not> hasHelpOrVersion' specHelpers [''node'', ''cb'', ''health'', ''--json'']"
    by (rule on) (simp add: spec_eval)
  have o3: "\<not> isTruthyEnvValue' specHelpers None \<and>
      \<not> hasHelpOrVersion' specHelpers [''node'', ''cb'', ''status'', ''--timeout'']"
    by (rule on) (simp add: spec_eval)
  have o4: "\<not> isTruthyEnvValue' specHelpers None \<and>
      \<not> hasHelpOrVersion' specHelpers [''node'', ''cb'', ''agents'', ''list'']"
    by (rule on) (simp add: spec_eval)
  have o5: "\<not> isTruthyEnvValue' specHelpers None \<and>
      \<not> hasHelpOrVersion' specHelpers [''node'', ''cb'', ''memory'', ''status'', ''--agent'', ''work'']"
    by (rule on) (simp add: spec_eval)
  have p1: "primaryOf specHelpers [''node'', ''cb'', ''health'', ''--json''] = Some ''health'' \<or>
      primaryOf specHelpers [''node'', ''cb'', ''health'', ''--json''] = Some ''status'' \<or>
      primaryOf specHelpers [''node'', ''cb'', ''health'', ''--json''] = Some ''sessions''"
    by (simp add: primaryOf_def spec_eval)
  have p2: "primaryOf specHelpers [''node'', ''cb'', ''status'', ''--timeout''] = Some ''health'' \<or>
      primaryOf specHelpers [''node'', ''cb'', ''status'', ''--timeout''] = Some ''status'' \<or>
      primaryOf specHelpers [''node'', ''cb'', ''status'', ''--timeout''] = Some ''sessions''"
    by (simp add: primaryOf_def spec_eval)
  have p3: "primaryOf specHelpers [''node'', ''cb'', ''sessions''] = Some ''health'' \<or>
      primaryOf specHelpers [''node'', ''cb'', ''sessions''] = Some ''status'' \<or>
      primaryOf specHelpers [''node'', ''cb'', ''sessions''] = Some ''sessions''"
    by (simp add: primaryOf_def spec_eval)
  have p4: "primaryOf specHelpers [''node'', ''cb'', ''agents'', ''list''] = Some ''agents'' \<and>
      secondaryOf specHelpers [''node'', ''cb'', ''agents'', ''list''] = Some ''list''"
    by (simp add: primaryOf_def secondaryOf_def spec_eval)
  have p5: "primaryOf specHelpers [''node'', ''cb'', ''memory'', ''status'', ''--agent'', ''work'']
        = Some ''memory'' \<and>
      secondaryOf specHelpers [''node'', ''cb'', ''memory'', ''status'', ''--agent'', ''work'']
        = Some ''status'' \<and>
      getFlagValue' specHelpers [''node'', ''cb'', ''memory'', ''status'', ''--agent'', ''work'']
        ''--agent'' \<noteq> Null"
    by (simp add: primaryOf_def secondaryOf_def spec_eval)
  note paths = tryRouteCli_migration_policy [THEN conjunct1, rule_format]
  have sessions: "take 2 (fst (?run [''node'', ''cb'', ''sessions'']))
      = [EmitCliBanner, EnsureConfigReady False] \<and>
      readinessChecks (fst (?run [''node'', ''cb'', ''sessions''])) = [False]"
    by (rule paths [OF o1, THEN conjunct1, rule_format, OF p3])
  have health: "take 2 (fst (?run [''node'', ''cb'', ''health'', ''--json'']))
      = [EmitCliBanner, EnsureConfigReady False] \<and>
      readinessChecks (fst (?run [''node'', ''cb'', ''health'', ''--json''])) = [False]"
    by (rule paths [OF o2, THEN conjunct1, rule_format, OF p1])
  have status: "take 2 (fst (?run [''node'', ''cb'', ''status'', ''--timeout'']))
      = [EmitCliBanner, EnsureConfigReady False] \<and>
      readinessChecks (fst (?run [''node'', ''cb'', ''status'', ''--timeout''])) = [False]"
    by (rule paths [OF o3, THEN conjunct1, rule_format, OF p2])
  have aborted: "snd (?run [''node'', ''cb'', ''status'', ''--timeout'']) = Inr False"
    by (simp add: tryRouteCli_def routeStatus_eq spec_eval)
  have pa: "(primaryOf specHelpers [''node'', ''cb'', ''status'', ''--timeout''] = Some ''agents'' \<and>
      secondaryOf specHelpers [''node'', ''cb'', ''status'', ''--timeout''] = Some ''list'') = False"
    by (simp add: primaryOf_def spec_eval)
  have only: "True \<notin> set (readinessChecks (fst (?run [''node'', ''cb'', ''status'', ''--timeout''])))"
    using tryRouteCli_migration_policy [THEN conjunct2, THEN conjunct2, THEN conjunct1,
        of specHelpers sampleExternals None "[''node'', ''cb'', ''status'', ''--timeout'']"]
    unfolding pa by blast
  have agents: "take 2 (fst (?run [''node'', ''cb'', ''agents'', ''list'']))
      = [EmitCliBanner, EnsureConfigReady True] \<and>
      readinessChecks (fst (?run [''node'', ''cb'', ''agents'', ''list''])) = [True]"
    by (rule paths [OF o4, THEN conjunct2, THEN conjunct1, rule_format, OF p4])
  have memory: "take 2 (fst (?run [''node'', ''cb'', ''memory'', ''status'', ''--agent'', ''work'']))
      = [EmitCliBanner, EnsureConfigReady False] \<and>
      readinessChecks (fst (?run [''node'', ''cb'', ''memory'', ''status'', ''--agent'', ''work'']))
      = [False]"
    by (rule paths [OF o5, THEN conjunct2, THEN conjunct2, rule_format, OF p5])
  have handled: "snd (?run [''node'', ''cb'', ''memory'', ''status'', ''--agent'', ''work''])
      = Inr True"
    by code_simp
  show ?thesis
    by (intro conjI sessions [THEN conjunct1] sessions [THEN conjunct2] health [THEN conjunct2]
          aborted status [THEN conjunct2] only agents [THEN conjunct1] agents [THEN conjunct2]
          handled memory [THEN conjunct1] memory [THEN conjunct2])
qed

text \<open>
  The statement of claim C5 fails: for \<^verbatim>\<open>node cb health --timeout abc\<close> the value \<^verbatim>\<open>abc\<close>
  is present and does not parse as a positive integer, yet the handler is invoked (with an
  undefined timeout) and \<^verbatim>\<open>tryRouteCli\<close> returns true.
\<close>

theorem timeout_not_validated_counterexample:
  "getFlagValue [''node'', ''cb'', ''health'', ''--timeout'', ''abc''] ''--timeout'' = Str ''abc'' \<and>
   parsePositiveIntOrUndefined (Some ''abc'') = None \<and>
   tryRouteCli specHelpers sampleExternals None
     [''node'', ''cb'', ''health'', ''--timeout'', ''abc''] =
     ([EmitCliBanner, EnsureConfigReady False, EnsurePluginRegistryLoaded, SetVerbose False,
       HealthCommand \<lparr>health_json = False, health_timeoutMs = None, health_verbose = False\<rparr>],
      Inr True)"
  by (simp add: tryRouteCli_def routeHealth_eq spec_eval parsePositiveIntOrUndefined_def
        parseDecimal_def isDigit_def)

text \<open>
  Claim C5, as the code has it. On the \<^verbatim>\<open>health\<close> and \<^verbatim>\<open>status\<close> fast paths (escape hatch
  not set, no help or version token), the fast path aborts exactly when the lookup of
  \<^verbatim>\<open>--timeout\<close> returns \<^verbatim>\<open>null\<close>. Otherwise the handler is invoked and \<^verbatim>\<open>tryRouteCli\<close>
  returns true; the handler receives as \<^verbatim>\<open>timeoutMs\<close> what
  \<^verbatim>\<open>parsePositiveIntOrUndefined\<close> makes of the value, which is a positive integer or
  undefined. A value that does not parse as a positive integer therefore reaches the
  handler as an undefined timeout.
\<close>

theorem tryRouteCli_timeout:
  "(\<not> isTruthyEnvValue' H env \<and> \<not> hasHelpOrVersion' H argv \<and>
    primaryOf H argv = Some ''health'' \<longrightarrow>
      tryRouteCli H X env argv =
        (if getFlagValue' H argv ''--timeout'' = Null
         then ([EmitCliBanner, EnsureConfigReady False, EnsurePluginRegistryLoaded], Inr False)
         else ([EmitCliBanner, EnsureConfigReady False, EnsurePluginRegistryLoaded,
                SetVerbose (hasFlag' H argv ''--verbose'' \<or> hasFlag' H argv ''--debug''),
                HealthCommand
                  \<lparr>health_json = hasFlag' H argv ''--json'',
                   health_timeoutMs =
                     parsePositiveIntOrUndefined' H
                       (definedValue (getFlagValue' H argv ''--timeout'')),
                   health_verbose =
                     hasFlag' H argv ''--verbose'' \<or> hasFlag' H argv ''--debug''\<rparr>],
               Inr True))) \<and>
   (\<not> isTruthyEnvValue' H env \<and> \<not> hasHelpOrVersion' H argv \<and>
    primaryOf H argv = Some ''status'' \<longrightarrow>
      tryRouteCli H X env argv =
        (if getFlagValue' H argv ''--timeout'' = Null
         then ([EmitCliBanner, EnsureConfigReady False, EnsurePluginRegistryLoaded], Inr False)
         else ([EmitCliBanner, EnsureConfigReady False, EnsurePluginRegistryLoaded,
                SetVerbose (hasFlag' H argv ''--verbose'' \<or> hasFlag' H argv ''--debug''),
                StatusCommand
                  \<lparr>status_json = hasFlag' H argv ''--json'',
                   status_deep = hasFlag' H argv ''--deep'',
                   status_all = hasFlag' H argv ''--all'',
                   status_usage = hasFlag' H argv ''--usage'',
                   status_timeoutMs =
                     parsePositiveIntOrUndefined' H
                       (definedValue (getFlagValue' H argv ''--timeout'')),
                   status_verbose =
                     hasFlag' H argv ''--verbose'' \<or> hasFlag' H argv ''--debug''\<rparr>],
               Inr True))) \<and>
   (parsePositiveIntOrUndefined v = Some n \<longrightarrow> 0 < n)"
proof (intro conjI impI)
  assume "\<not> isTruthyEnvValue' H env \<and> \<not> hasHelpOrVersion' H argv \<and>
    primaryOf H argv = Some ''health''"
  then have "tryRouteCli H X env argv = routeHealth H argv"
    by (simp add: tryRouteCli_route)
  then show "tryRouteCli H X env argv =
        (if getFlagValue' H argv ''--timeout'' = Null
         then ([EmitCliBanner, EnsureConfigReady False, EnsurePluginRegistryLoaded], Inr False)
         else ([EmitCliBanner, EnsureConfigReady False, EnsurePluginRegistryLoaded,
                SetVerbose (hasFlag' H argv ''--verbose'' \<or> hasFlag' H argv ''--debug''),
                HealthCommand
                  \<lparr>health_json = hasFlag' H argv ''--json'',
                   health_timeoutMs =
                     parsePositiveIntOrUndefined' H
                       (definedValue (getFlagValue' H argv ''--timeout'')),
                   health_verbose =
                     hasFlag' H argv ''--verbose'' \<or> hasFlag' H argv ''--debug''\<rparr>],
               Inr True))"
    by (simp only: routeHealth_eq)
next
  assume "\<not> isTruthyEnvValue' H env \<and> \<not> hasHelpOrVersion' H argv \<and>
    primaryOf H argv = Some ''status''"
  then have "tryRouteCli H X env argv = routeStatus H argv"
    by (simp add: tryRouteCli_route)
  then show "tryRouteCli H X env argv =
        (if getFlagValue' H argv ''--timeout'' = Null
         then ([EmitCliBanner, EnsureConfigReady False, EnsurePluginRegistryLoaded], Inr False)
         else ([EmitCliBanner, EnsureConfigReady False, EnsurePluginRegistryLoaded,
                SetVerbose (hasFlag' H argv ''--verbose'' \<or> hasFlag' H argv ''--debug''),
                StatusCommand
                  \<lparr>status_json = hasFlag' H argv ''--json'',
                   status_deep = hasFlag' H argv ''--deep'',
                   status_all = hasFlag' H argv ''--all'',
                   status_usage = hasFlag' H argv ''--usage'',
                   status_timeoutMs =
                     parsePositiveIntOrUndefined' H
                       (definedValue (getFlagValue' H argv ''--timeout'')),
                   status_verbose =
                     hasFlag' H argv ''--verbose'' \<or> hasFlag' H argv ''--debug''\<rparr>],
               Inr True))"
    by (simp only: routeStatus_eq)
next
  assume "parsePositiveIntOrUndefined v = Some n"
  then show "0 < n" by (rule parsePositive)
qed

theorem tryRouteCli_timeout_witness:
  "tryRouteCli specHelpers sampleExternals None
     [''node'', ''cb'', ''status'', ''--timeout'', ''250'', ''--deep''] =
     ([EmitCliBanner, EnsureConfigReady False, EnsurePluginRegistryLoaded, SetVerbose False,
       StatusCommand \<lparr>status_json = False, status_deep = True, status_all = False,
                      status_usage = False, status_timeoutMs = Some 250,
                      status_verbose = False\<rparr>],
      Inr True) \<and>
   tryRouteCli specHelpers sampleExternals None
     [''node'', ''cb'', ''health'', ''--timeout'', ''0''] =
     ([EmitCliBanner, EnsureConfigReady False, EnsurePluginRegistryLoaded, SetVerbose False,
       HealthCommand \<lparr>health_json = False, health_timeoutMs = None, health_verbose = False\<rparr>],
      Inr True) \<and>
   parsePositiveIntOrUndefined (Some ''250'') = Some 250 \<and> (0::nat) < 250"
proof -
  have s: "\<not> isTruthyEnvValue' specHelpers None \<and>
      \<not> hasHelpOrVersion' specHelpers [''node'', ''cb'', ''status'', ''--timeout'', ''250'', ''--deep''] \<and>
      primaryOf specHelpers [''node'', ''cb'', ''status'', ''--timeout'', ''250'', ''--deep'']
        = Some ''status''"
    by (simp add: primaryOf_def spec_eval)
  have h: "\<not> isTruthyEnvValue' specHelpers None \<and>
      \<not> hasHelpOrVersion' specHelpers [''node'', ''cb'', ''health'', ''--timeout'', ''0''] \<and>
      primaryOf specHelpers [''node'', ''cb'', ''health'', ''--timeout'', ''0''] = Some ''health''"
    by (simp add: primaryOf_def spec_eval)
  have p: "parsePositiveIntOrUndefined (Some ''250'') = Some 250"
    by (simp add: parsePositiveIntOrUndefined_def parseDecimal_def isDigit_def)
  show ?thesis
    using tryRouteCli_timeout [THEN conjunct2, THEN conjunct1, rule_format, OF s, of sampleExternals]
          tryRouteCli_timeout [THEN conjunct1, rule_format, OF h, of sampleExternals]
          tryRouteCli_timeout [THEN conjunct2, THEN conjunct2, rule_format, OF p]
    by (simp add: spec_eval parsePositiveIntOrUndefined_def parseDecimal_def isDigit_def)
qed

section \<open>Properties of argv reconstruction\<close>

text \<open>
  Claim C9. Given raw arguments of the script-runner style, a runtime that is not the
  program name followed by a script, \<^verbatim>\<open>buildParseArgv\<close> returns them unchanged. Given raw
  arguments of the direct-binary style, which start with the program name, and given a
  fallback token array, it returns the synthetic runtime name and the program name followed
  by the remaining tokens. Unless the program is itself named like the synthetic runtime,
  what it returns is again of the script-runner style: applied to its own result it changes
  nothing.
\<close>

theorem buildParseArgv_styles:
  "(runtime \<noteq> programName \<longrightarrow>
      buildParseArgv programName (RawArgs (runtime # script # rest)) = runtime # script # rest) \<and>
   buildParseArgv programName (RawArgs (programName # rest)) =
     SYNTHETIC_RUNTIME # programName # rest \<and>
   buildParseArgv programName (FallbackArgv tokens) = SYNTHETIC_RUNTIME # programName # tokens \<and>
   (SYNTHETIC_RUNTIME \<noteq> programName \<longrightarrow>
      buildParseArgv programName (RawArgs (buildParseArgv programName source)) =
        buildParseArgv programName source)"
proof (intro conjI impI)
  assume "runtime \<noteq> programName"
  then show "buildParseArgv programName (RawArgs (runtime # script # rest)) = runtime # script # rest"
    by (simp add: isDirectBinary_def)
next
  show "buildParseArgv programName (RawArgs (programName # rest)) =
     SYNTHETIC_RUNTIME # programName # rest"
    by (simp add: isDirectBinary_def)
next
  show "buildParseArgv programName (FallbackArgv tokens) = SYNTHETIC_RUNTIME # programName # tokens"
    by simp
next
  assume "SYNTHETIC_RUNTIME \<noteq> programName"
  then show "buildParseArgv programName (RawArgs (buildParseArgv programName source)) =
        buildParseArgv programName source"
    by (cases source) (auto simp: isDirectBinary_def split: list.splits)
qed

theorem buildParseArgv_styles_witness:
  "buildParseArgv ''clawdbot'' (RawArgs [''bun'', ''src/entry.ts'', ''status'']) =
     [''bun'', ''src/entry.ts'', ''status''] \<and>
   buildParseArgv ''clawdbot'' (RawArgs (buildParseArgv ''clawdbot'' (RawArgs [''clawdbot'', ''status'']))) =
     [''node'', ''clawdbot'', ''status'']"
  using buildParseArgv_styles [of "''bun''" "''clawdbot''" "''src/entry.ts''" "[''status'']"
          "[]" "RawArgs [''clawdbot'', ''status'']"]
  by (simp add: SYNTHETIC_RUNTIME_def isDirectBinary_def)

section \<open>Properties of the pre-action hook\<close>

lemma readinessChecks_title: "readinessChecks (setProcessTitleForCommand c) = []"
  by (simp add: setProcessTitleForCommand_def Let_def)

text \<open>
  Claim C7. The hook first sets the process title (when the top-level ancestor has a name
  other than the program's) and emits the banner. It then returns without a readiness check
  when the arguments hold a help or version token, or when the top-level command, which the
  hook reads as the first element of \<^verbatim>\<open>getCommandPath(argv, 1)\<close>, is \<^verbatim>\<open>doctor\<close>. In every
  other case it makes one readiness check, with state migration enabled exactly when
  \<^verbatim>\<open>isReadOnlyCommand(argv)\<close> is false. This holds for whatever the three helpers compute.
\<close>

theorem preAction_readiness:
  "preAction H isReadOnlyCommand actionCommand argv =
     setProcessTitleForCommand actionCommand @ [EmitCliBanner] @
     (if hasHelpOrVersion' H argv \<or> hookPrimary H argv = Some ''doctor'' then []
      else [EnsureConfigReady (\<not> isReadOnlyCommand argv)]) \<and>
   readinessChecks (preAction H isReadOnlyCommand actionCommand argv) =
     (if hasHelpOrVersion' H argv \<or> hookPrimary H argv = Some ''doctor'' then []
      else [\<not> isReadOnlyCommand argv])"
proof -
  obtain primary other where d: "destructure2 (getCommandPath' H argv 1) = (primary, other)"
    by (cases "destructure2 (getCommandPath' H argv 1)")
  have p: "hookPrimary H argv = primary"
    by (simp only: hookPrimary_def d fst_conv)
  have e: "preAction H isReadOnlyCommand actionCommand argv =
     setProcessTitleForCommand actionCommand @ [EmitCliBanner] @
     (if hasHelpOrVersion' H argv \<or> hookPrimary H argv = Some ''doctor'' then []
      else [EnsureConfigReady (\<not> isReadOnlyCommand argv)])"
    unfolding preAction_def d p by simp
  show ?thesis
    by (rule conjI, rule e, unfold e)
       (simp add: readinessChecks_append readinessChecks_title)
qed

text \<open>
  The hook on two invocations with the helpers as the specification describes them, and
  on one with a \<^verbatim>\<open>getCommandPath\<close> that answers \<^verbatim>\<open>doctor\<close>.
\<close>

theorem preAction_readiness_witness:
  "preAction specHelpers (\<lambda>_. True) (Command ''status'' (Some (Command ''clawdbot'' None)))
     [''node'', ''clawdbot'', ''status''] =
     [SetProcessTitle ''clawdbot-status'', EmitCliBanner, EnsureConfigReady False] \<and>
   preAction specHelpers (\<lambda>_. False)
     (Command ''add'' (Some (Command ''agents'' (Some (Command ''clawdbot'' None)))))
     [''node'', ''clawdbot'', ''agents'', ''add'', ''--help''] =
     [SetProcessTitle ''clawdbot-agents'', EmitCliBanner] \<and>
   preAction (specHelpers\<lparr>getCommandPath' := (\<lambda>_ _. [''doctor''])\<rparr>) (\<lambda>_. False)
     (Command ''doctor'' (Some (Command ''clawdbot'' None))) [''node'', ''clawdbot'', ''doctor''] =
     [SetProcessTitle ''clawdbot-doctor'', EmitCliBanner]"
  using preAction_readiness [THEN conjunct1, of specHelpers "\<lambda>_. True"
          "Command ''status'' (Some (Command ''clawdbot'' None))"
          "[''node'', ''clawdbot'', ''status'']"]
        preAction_readiness [THEN conjunct1, of specHelpers "\<lambda>_. False"
          "Command ''add'' (Some (Command ''agents'' (Some (Command ''clawdbot'' None))))"
          "[''node'', ''clawdbot'', ''agents'', ''add'', ''--help'']"]
        preAction_readiness [THEN conjunct1,
          of "specHelpers\<lparr>getCommandPath' := (\<lambda>_ _. [''doctor''])\<rparr>" "\<lambda>_. False"
          "Command ''doctor'' (Some (Command ''clawdbot'' None))"
          "[''node'', ''clawdbot'', ''doctor'']"]
  by (simp add: hookPrimary_def setProcessTitleForCommand_def spec_eval)

section \<open>Properties of the memory commands\<close>

lemma snd_indexRun: "snd (indexRun opts a m) = Inr ()"
  by (simp add: indexRun_def snd_tryCatch snd_andThen split: sum.splits)


lemma indexRound_total:
  "\<exists>r. snd (withManager (getManager X cfg a) onMissing onCloseError (closeManager a)
            (indexRun opts a)) = Inr r"
  by (simp add: snd_withManager snd_indexRun split: option.splits)

lemma memoryIndex_events:
  "fst (memoryIndex X opts) =
     [SetVerbose (verbose opts), LoadConfig] @
     concat (map (\<lambda>a. fst (withManager (getManager X (loadConfig X) a) onMissing onCloseError
                          (closeManager a) (indexRun opts a)))
               (resolveAgentIds X (loadConfig X) (agent opts)))"
  by (simp add: memoryIndex_def Let_def fst_andThen fst_forEach_total indexRound_total
        split: sum.splits)


lemma memoryIndex_managers:
  "managersRequested (fst (memoryIndex X opts)) =
     resolveAgentIds X (loadConfig X) (agent opts)"
proof -
  have "managersRequested (concat (map (\<lambda>a. fst (withManager (getManager X cfg a) onMissing
            onCloseError (closeManager a) (indexRun opts a))) ids)) = ids" for cfg ids
    by (induction ids)
       (simp_all add: managersRequested_append withManager_managersRequested plain_indexRun)
  then show ?thesis
    by (simp add: memoryIndex_events)
qed


lemma memorySearch_managers:
  "managersRequested (fst (memorySearch X q opts)) = [resolveAgent X (loadConfig X) (agent opts)]"
  by (simp add: memorySearch_def Let_def fst_andThen managersRequested_append
        withManager_managersRequested plain_searchRun split: sum.splits)







lemma forEach_reached:
  assumes "\<And>x. managersRequested (fst (body x)) = [x]"
  shows "managersRequested (fst (forEach xs body)) = roundsReached body xs"
  by (induction xs)
     (simp_all add: fst_andThen snd_andThen managersRequested_append assms split: sum.splits)

lemma roundsReached_prefix: "prefix (roundsReached body xs) xs"
  by (induction xs) (simp_all split: sum.splits)

lemma statusRound_managersRequested: "managersRequested (fst (statusRound X opts a)) = [a]"
  unfolding statusRound_def by (rule withManager_managersRequested) (rule plain_statusRun)

lemma runMemoryStatus_reached:
  "managersRequested (fst (runMemoryStatus X opts)) =
     roundsReached (statusRound X opts) (resolveAgentIds X (loadConfig X) (agent opts))"
proof -
  let ?ids = "resolveAgentIds X (loadConfig X) (agent opts)"
  have loop: "managersRequested (fst (forEach ?ids (statusRound X opts))) =
      roundsReached (statusRound X opts) ?ids"
    by (rule forEach_reached) (rule statusRound_managersRequested)
  have report: "managersRequested (fst (forEach rs (statusReport opts))) = []" for rs
    by (intro plain_managersRequested events_forEach plain_statusReport)
  have "fst (runMemoryStatus X opts) =
      [EnsureConfigReady False, SetVerbose (verbose opts), LoadConfig] @
      fst (forEach ?ids (statusRound X opts)) @
      (case snd (forEach ?ids (statusRound X opts)) of
         Inl _ \<Rightarrow> []
       | Inr pushed \<Rightarrow>
           if json opts then [LogStatusJson (pushedResults pushed)]
           else fst (forEach (pushedResults pushed) (statusReport opts)))"
    unfolding runMemoryStatus_def statusRound_def [abs_def]
    by (simp add: Let_def fst_andThen split: sum.splits)
  then show ?thesis
    by (simp add: managersRequested_append loop report split: sum.splits)
qed

text \<open>
  The statement of claim C10 fails in two ways. For a configured list that holds an empty
  id, the empty id is an id of the list, and neither \<^verbatim>\<open>memory index\<close> nor \<^verbatim>\<open>memory status\<close>
  operates on it. And for the configured agents \<^verbatim>\<open>main\<close> and \<^verbatim>\<open>work\<close>, when the vector probe
  of \<^verbatim>\<open>main\<close> throws, \<^verbatim>\<open>memory status\<close> ends with that error and never operates on \<^verbatim>\<open>work\<close>:
  its \<^verbatim>\<open>run\<close> callback, unlike the one of \<^verbatim>\<open>memory index\<close>, catches nothing around the
  probes and the status read (lines 74 to 122).
\<close>

theorem memory_agents_counterexample:
  "map entry_id (the (agents_list (loadConfig blankIdExternals))) = ['''', ''work''] \<and>
   managersRequested (fst (memoryIndex blankIdExternals bareIndexOptions)) = [''work''] \<and>
   managersRequested (fst (runMemoryStatus blankIdExternals bareStatusOptions)) = [''work''] \<and>
   map entry_id (the (agents_list (loadConfig probeFailsExternals))) = [''main'', ''work''] \<and>
   managersRequested (fst (runMemoryStatus probeFailsExternals bareStatusOptions)) = [''main''] \<and>
   snd (runMemoryStatus probeFailsExternals bareStatusOptions) = Inl (JsError ''no vector extension'')"
  by code_simp

text \<open>
  Claim C10, as the code has it. When \<^verbatim>\<open>--agent\<close> is given and not blank after trimming,
  the agent ids of \<^verbatim>\<open>memory status\<close> and \<^verbatim>\<open>memory index\<close> are exactly the trimmed id, and
  so is the agent of \<^verbatim>\<open>memory search\<close>. When it is not given or blank, \<^verbatim>\<open>memory status\<close> and
  \<^verbatim>\<open>memory index\<close> take the non-empty ids of the configured agents list, in order, or the
  single default agent when that list has no entry, and \<^verbatim>\<open>memory search\<close> takes the default
  agent. \<^verbatim>\<open>memory index\<close> asks for the manager of each of its agent ids and
  \<^verbatim>\<open>memory search\<close> for the manager of its one agent. \<^verbatim>\<open>memory status\<close> asks for the
  managers of its agent ids in order: of no other agent, and of each agent at least once the
  rounds of all agents before it have returned.
\<close>

theorem memory_agent_selection:
  "(map_option trim agentOpt = Some t \<and> truthy t \<longrightarrow>
      resolveAgentIds X cfg agentOpt = [t] \<and> resolveAgent X cfg agentOpt = t) \<and>
   (agentOpt = None \<or> map_option trim agentOpt = Some [] \<longrightarrow>
      resolveAgentIds X cfg agentOpt =
        (case agents_list cfg of
           None \<Rightarrow> [resolveDefaultAgentId X cfg]
         | Some [] \<Rightarrow> [resolveDefaultAgentId X cfg]
         | Some entries \<Rightarrow> filter truthy (map entry_id entries)) \<and>
      resolveAgent X cfg agentOpt = resolveDefaultAgentId X cfg) \<and>
   managersRequested (fst (memoryIndex X iopts)) =
     resolveAgentIds X (loadConfig X) (agent iopts) \<and>
   managersRequested (fst (memorySearch X q sopts)) =
     [resolveAgent X (loadConfig X) (agent sopts)] \<and>
   prefix (managersRequested (fst (runMemoryStatus X opts)))
     (resolveAgentIds X (loadConfig X) (agent opts)) \<and>
   prefix (roundsReached (statusRound X opts) (resolveAgentIds X (loadConfig X) (agent opts)))
     (managersRequested (fst (runMemoryStatus X opts)))"
proof (intro conjI impI)
  assume "map_option trim agentOpt = Some t \<and> truthy t"
  then show "resolveAgentIds X cfg agentOpt = [t]" and "resolveAgent X cfg agentOpt = t"
    by (auto simp: resolveAgentIds_def resolveAgent_def truthy_def Let_def)
next
  assume "agentOpt = None \<or> map_option trim agentOpt = Some []"
  then show "resolveAgentIds X cfg agentOpt =
        (case agents_list cfg of
           None \<Rightarrow> [resolveDefaultAgentId X cfg]
         | Some [] \<Rightarrow> [resolveDefaultAgentId X cfg]
         | Some entries \<Rightarrow> filter truthy (map entry_id entries))"
    and "resolveAgent X cfg agentOpt = resolveDefaultAgentId X cfg"
    by (auto simp: resolveAgentIds_def resolveAgent_def truthy_def Let_def
             split: option.splits list.splits)
next
  show "managersRequested (fst (memoryIndex X iopts)) =
     resolveAgentIds X (loadConfig X) (agent iopts)" by (rule memoryIndex_managers)
  show "managersRequested (fst (memorySearch X q sopts)) =
     [resolveAgent X (loadConfig X) (agent sopts)]" by (rule memorySearch_managers)
  show "prefix (managersRequested (fst (runMemoryStatus X opts)))
     (resolveAgentIds X (loadConfig X) (agent opts))"
    unfolding runMemoryStatus_reached by (rule roundsReached_prefix)
  show "prefix (roundsReached (statusRound X opts) (resolveAgentIds X (loadConfig X) (agent opts)))
     (managersRequested (fst (runMemoryStatus X opts)))"
    unfolding runMemoryStatus_reached by simp
qed

theorem memory_agent_selection_witness:
  "managersRequested (fst (memoryIndex sampleExternals bareIndexOptions)) = [''main'', ''work''] \<and>
   managersRequested (fst (memorySearch sampleExternals ''notes'' bareSearchOptions)) = [''main''] \<and>
   managersRequested (fst (memoryIndex sampleExternals (bareIndexOptions\<lparr>agent := Some '' work ''\<rparr>)))
     = [''work''] \<and>
   managersRequested
     (fst (memorySearch sampleExternals ''notes'' (bareSearchOptions\<lparr>agent := Some ''  ''\<rparr>)))
     = [''main''] \<and>
   roundsReached (statusRound sampleExternals bareStatusOptions) [''main'', ''work'']
     = [''main'', ''work''] \<and>
   managersRequested (fst (runMemoryStatus sampleExternals bareStatusOptions))
     = [''main'', ''work'']"
proof -
  let ?cfg = "loadConfig sampleExternals"
  have w: "map_option trim (Some '' work '') = Some ''work'' \<and> truthy ''work''"
    by (simp add: trim_def isWhiteSpace_def truthy_def)
  have b: "None = None \<or> map_option trim None = Some []" by simp
  have b': "Some ''  '' = None \<or> map_option trim (Some ''  '') = Some []"
    by (simp add: trim_def isWhiteSpace_def)
  have given: "resolveAgentIds sampleExternals ?cfg (Some '' work '') = [''work'']"
    using memory_agent_selection [THEN conjunct1, rule_format, OF w, of sampleExternals ?cfg]
    by (rule conjunct1)
  have none: "resolveAgentIds sampleExternals ?cfg None = [''main'', ''work'']"
    "resolveAgent sampleExternals ?cfg None = ''main''"
    using memory_agent_selection [THEN conjunct2, THEN conjunct1, rule_format, OF b,
        of sampleExternals ?cfg]
    by (simp_all add: sampleExternals_def truthy_def)
  have blank: "resolveAgent sampleExternals ?cfg (Some ''  '') = ''main''"
    using memory_agent_selection [THEN conjunct2, THEN conjunct1, rule_format, OF b',
        of sampleExternals ?cfg]
    by (simp add: sampleExternals_def)
  note idx = memory_agent_selection [THEN conjunct2, THEN conjunct2, THEN conjunct1]
  note srch = memory_agent_selection [THEN conjunct2, THEN conjunct2, THEN conjunct2, THEN conjunct1]
  note upper = memory_agent_selection [THEN conjunct2, THEN conjunct2, THEN conjunct2,
      THEN conjunct2, THEN conjunct1, of sampleExternals bareStatusOptions]
  note lower = memory_agent_selection [THEN conjunct2, THEN conjunct2, THEN conjunct2,
      THEN conjunct2, THEN conjunct2, of sampleExternals bareStatusOptions]
  have a: "agent bareIndexOptions = None" "agent bareSearchOptions = None"
    "agent bareStatusOptions = None"
    by (simp_all add: bareIndexOptions_def bareSearchOptions_def bareStatusOptions_def)
  have reached: "roundsReached (statusRound sampleExternals bareStatusOptions) [''main'', ''work'']
     = [''main'', ''work'']"
    by code_simp
  have st: "managersRequested (fst (runMemoryStatus sampleExternals bareStatusOptions))
     = [''main'', ''work'']"
    using upper lower unfolding a none reached by (rule prefix_order.antisym)
  show ?thesis
    using a by (simp add: idx srch given none blank reached st del: roundsReached.simps)
qed

end
